theory Spec2Isabelle
  imports Main "HOL-Library.AList" "HOL-Library.Sublist"
begin

section \<open>Values, dictionaries and the history file\<close>

text \<open>
  The history file holds what \<^verbatim>\<open>json.dump\<close> wrote: a JSON array of objects. A parsed JSON
  value is \<open>json\<close> (numbers are integers: no part of app.py writes a float into the
  history). A Python \<^verbatim>\<open>dict\<close> keeps its keys in insertion order, and an assignment
  \<^verbatim>\<open>d[k] = v\<close> replaces the value of a key that is present and adds the key at the end
  otherwise: that is \<open>AList.update\<close> on an association list.
\<close>

datatype json =
    JNull
  | JBool bool
  | JInt int
  | JStr string
  | JArr "json list"
  | JObj "(string \<times> json) list"

type_synonym item = "(string \<times> json) list"

type_synonym history = "item list"

text \<open>The exceptions that the modelled functions raise.\<close>

datatype exc =
    KeyError string
  | AttributeError
  | IndexError
  | RuntimeError string
  | ValueError string
  | LibraryError string

text \<open>\<^verbatim>\<open>d[k]\<close> raises \<^verbatim>\<open>KeyError\<close> on a missing key; \<^verbatim>\<open>d.get(k, default)\<close> does not.\<close>

definition subscript :: "item \<Rightarrow> string \<Rightarrow> exc + json" where
  "subscript d k = (case map_of d k of None \<Rightarrow> Inl (KeyError k) | Some v \<Rightarrow> Inr v)"

definition dict_get :: "('k \<times> 'v) list \<Rightarrow> 'k \<Rightarrow> 'v \<Rightarrow> 'v" where
  "dict_get d k dflt = (case map_of d k of None \<Rightarrow> dflt | Some v \<Rightarrow> v)"

text \<open>Python's truth value of an object, as \<^verbatim>\<open>if x\<close> and \<^verbatim>\<open>not x\<close> test it.\<close>

fun truthy :: "json \<Rightarrow> bool" where
  "truthy JNull = False"
| "truthy (JBool b) = b"
| "truthy (JInt n) = (n \<noteq> 0)"
| "truthy (JStr s) = (s \<noteq> [])"
| "truthy (JArr xs) = (xs \<noteq> [])"
| "truthy (JObj kvs) = (kvs \<noteq> [])"

text \<open>
  \<^verbatim>\<open>v == n\<close> for an integer \<open>n\<close>: an \<^verbatim>\<open>int\<close> equals it by value, \<^verbatim>\<open>True\<close> and \<^verbatim>\<open>False\<close>
  are the integers 1 and 0, and no other JSON value equals an integer.
\<close>

fun eq_int :: "json \<Rightarrow> int \<Rightarrow> bool" where
  "eq_int (JInt n) i = (n = i)"
| "eq_int (JBool b) i = ((if b then 1 else 0) = i)"
| "eq_int _ i = False"

text \<open>
  The state of \<^verbatim>\<open>content_history.json\<close>: absent; present, but \<^verbatim>\<open>open\<close> or
  \<^verbatim>\<open>json.load\<close> raises the given exception on it; or present with the array that
  \<^verbatim>\<open>json.dump\<close> wrote. \<^verbatim>\<open>json.load\<close> gives back the value \<^verbatim>\<open>json.dump\<close> was given.
\<close>

datatype file_state =
    NoFile
  | Unparsable exc
  | Stored history

section \<open>History store (app.py, lines 186 to 230)\<close>

text \<open>
  \<^verbatim>\<open>load_history\<close>: \<^verbatim>\<open>os.path.exists\<close> decides the outer branch; inside, the bare
  \<^verbatim>\<open>except:\<close> turns every failure of \<^verbatim>\<open>open\<close> and \<^verbatim>\<open>json.load\<close> into \<^verbatim>\<open>[]\<close>.
  The result is \<open>exc + history\<close> so that "does not raise" can be stated.
\<close>

definition load_history_result :: "file_state \<Rightarrow> exc + history" where
  "load_history_result fs =
     (case fs of
        NoFile \<Rightarrow> Inr []
      | Unparsable e \<Rightarrow> Inr []
      | Stored h \<Rightarrow> Inr h)"

definition load_history :: "file_state \<Rightarrow> history" where
  "load_history fs = (case load_history_result fs of Inr h \<Rightarrow> h | Inl e \<Rightarrow> [])"

text \<open>
  \<^verbatim>\<open>save_to_history(record)\<close>; \<open>now\<close> is \<^verbatim>\<open>datetime.datetime.now().isoformat()\<close>.
  The three assignments happen in the source's order, then the record is appended and the
  whole list written.
\<close>

definition save_to_history :: "string \<Rightarrow> item \<Rightarrow> file_state \<Rightarrow> file_state" where
  "save_to_history now record fs =
     (let history = load_history fs;
          record = AList.update ''id'' (JInt (int (length history) + 1)) record;
          record = AList.update ''timestamp'' (JStr now) record;
          record = AList.update ''favorite'' (JBool False) record
      in Stored (history @ [record]))"

text \<open>
  The loop of \<^verbatim>\<open>toggle_favorite\<close>: it stops at the first item whose id equals
  \<open>item_id\<close> (\<^verbatim>\<open>break\<close>), and \<^verbatim>\<open>item["id"]\<close> raises on an item without that key.
\<close>

fun toggle_loop :: "int \<Rightarrow> history \<Rightarrow> exc + history" where
  "toggle_loop item_id [] = Inr []"
| "toggle_loop item_id (item # rest) =
     (case subscript item ''id'' of
        Inl e \<Rightarrow> Inl e
      | Inr v \<Rightarrow>
          if eq_int v item_id
          then Inr (AList.update ''favorite''
                      (JBool (\<not> truthy (dict_get item ''favorite'' (JBool False)))) item # rest)
          else (case toggle_loop item_id rest of
                  Inl e \<Rightarrow> Inl e
                | Inr rest' \<Rightarrow> Inr (item # rest')))"

text \<open>An exception leaves the file as it was: the write comes after the loop.\<close>

definition toggle_favorite :: "int \<Rightarrow> file_state \<Rightarrow> exc + file_state" where
  "toggle_favorite item_id fs =
     (case toggle_loop item_id (load_history fs) of
        Inl e \<Rightarrow> Inl e
      | Inr history \<Rightarrow> Inr (Stored history))"

text \<open>The list comprehension of \<^verbatim>\<open>delete_content\<close> visits every item.\<close>

fun delete_filter :: "int \<Rightarrow> history \<Rightarrow> exc + history" where
  "delete_filter item_id [] = Inr []"
| "delete_filter item_id (item # rest) =
     (case subscript item ''id'' of
        Inl e \<Rightarrow> Inl e
      | Inr v \<Rightarrow>
          (case delete_filter item_id rest of
             Inl e \<Rightarrow> Inl e
           | Inr rest' \<Rightarrow> Inr (if \<not> eq_int v item_id then item # rest' else rest')))"

definition delete_content :: "int \<Rightarrow> file_state \<Rightarrow> exc + (file_state \<times> bool)" where
  "delete_content item_id fs =
     (let history = load_history fs in
      case delete_filter item_id history of
        Inl e \<Rightarrow> Inl e
      | Inr updated_history \<Rightarrow>
          Inr (Stored updated_history, length history \<noteq> length updated_history))"

text \<open>
  The writer: the user interface calls \<^verbatim>\<open>save_to_history\<close> (line 802),
  \<^verbatim>\<open>toggle_favorite\<close> (line 971) and \<^verbatim>\<open>delete_content\<close> (line 977), and "clear all"
  dumps the empty list (lines 874 and 875). An operation that raises leaves the file as it
  was.
\<close>

datatype store_op =
    Append string item
  | Toggle int
  | Delete int
  | ClearAll

fun apply_op :: "file_state \<Rightarrow> store_op \<Rightarrow> file_state" where
  "apply_op fs (Append now record) = save_to_history now record fs"
| "apply_op fs (Toggle item_id) =
     (case toggle_favorite item_id fs of Inl e \<Rightarrow> fs | Inr fs' \<Rightarrow> fs')"
| "apply_op fs (Delete item_id) =
     (case delete_content item_id fs of Inl e \<Rightarrow> fs | Inr (fs', deleted) \<Rightarrow> fs')"
| "apply_op fs ClearAll = Stored []"

definition run :: "store_op list \<Rightarrow> file_state \<Rightarrow> file_state" where
  "run ops fs = foldl apply_op fs ops"

fun is_delete :: "store_op \<Rightarrow> bool" where
  "is_delete (Delete item_id) = True"
| "is_delete _ = False"

subsection \<open>Notions used to state the properties of the store\<close>

definition id_of :: "item \<Rightarrow> json option" where
  "id_of r = map_of r ''id''"

text \<open>The record has an id that equals \<open>i\<close>.\<close>

definition has_id :: "int \<Rightarrow> item \<Rightarrow> bool" where
  "has_id i r = (case id_of r of None \<Rightarrow> False | Some v \<Rightarrow> eq_int v i)"

text \<open>Every record has the field \<open>id\<close>, as every record that \<open>save_to_history\<close> wrote has.\<close>

definition all_have_id :: "history \<Rightarrow> bool" where
  "all_have_id h = list_all (\<lambda>r. id_of r \<noteq> None) h"

text \<open>The favorite flag as the code reads it, and the stores in which it is a boolean.\<close>

definition favorite_of :: "item \<Rightarrow> json" where
  "favorite_of r = dict_get r ''favorite'' (JBool False)"

definition boolean_favorites :: "history \<Rightarrow> bool" where
  "boolean_favorites h =
     list_all (\<lambda>r. case favorite_of r of JBool b \<Rightarrow> True | _ \<Rightarrow> False) h"

definition flip_favorite :: "item \<Rightarrow> item" where
  "flip_favorite r = AList.update ''favorite'' (JBool (\<not> truthy (favorite_of r))) r"

text \<open>The ids are 1, 2, ..., in the order of the records.\<close>

definition ids_sequential :: "history \<Rightarrow> bool" where
  "ids_sequential h = (map id_of h = map (\<lambda>k. Some (JInt (int k))) [1..<Suc (length h)])"

section \<open>Strings\<close>

text \<open>
  A string is a list of characters with codes below 256. \<^verbatim>\<open>a in b\<close> on two strings asks
  whether \<open>a\<close> occurs in \<open>b\<close> as a contiguous block.
\<close>

fun str_contains :: "string \<Rightarrow> string \<Rightarrow> bool" where
  "str_contains a [] = (a = [])"
| "str_contains a (c # cs) = (prefix a (c # cs) \<or> str_contains a cs)"

text \<open>The characters below 256 that \<^verbatim>\<open>str.isspace\<close> accepts, and \<^verbatim>\<open>str.strip()\<close>.\<close>

definition is_space :: "char \<Rightarrow> bool" where
  "is_space c = ((of_char c :: nat) \<in> {9, 10, 11, 12, 13, 28, 29, 30, 31, 32, 133, 160})"

definition strip :: "string \<Rightarrow> string" where
  "strip s = rev (dropWhile is_space (rev (dropWhile is_space s)))"

text \<open>\<^verbatim>\<open>str(n)\<close> for an integer: decimal digits, with a minus sign below zero.\<close>

fun str_nat :: "nat \<Rightarrow> string" where
  "str_nat n = (if n < 10 then [''0123456789'' ! n]
                else str_nat (n div 10) @ [''0123456789'' ! (n mod 10)])"

text \<open>The equation of \<open>str_nat\<close> calls itself: it is unfolded by hand.\<close>

declare str_nat.simps [simp del]

definition str_int :: "int \<Rightarrow> string" where
  "str_int i = (if i < 0 then ''-'' @ str_nat (nat (- i)) else str_nat (nat i))"

text \<open>
  \<^verbatim>\<open>str(v)\<close>, which an f-string applies to an interpolated value. On lists and dicts it
  is \<^verbatim>\<open>repr\<close>, a built-in taken as the parameter \<open>repr\<close>.
\<close>

fun py_str :: "(json \<Rightarrow> string) \<Rightarrow> json \<Rightarrow> string" where
  "py_str repr JNull = ''None''"
| "py_str repr (JBool b) = (if b then ''True'' else ''False'')"
| "py_str repr (JInt n) = str_int n"
| "py_str repr (JStr s) = s"
| "py_str repr (JArr xs) = repr (JArr xs)"
| "py_str repr (JObj kvs) = repr (JObj kvs)"

definition nl :: string where
  "nl = [CHR 0x0A]"

definition quote :: string where
  "quote = [CHR 0x27]"

section \<open>Search and export (app.py, lines 233 to 274)\<close>

text \<open>
  \<^verbatim>\<open>query.lower() in item.get(k, "").lower()\<close>. \<^verbatim>\<open>str.lower\<close> is the parameter \<open>lower\<close>;
  a value that is not a string has no method \<^verbatim>\<open>lower\<close>.
\<close>

definition field_contains :: "(string \<Rightarrow> string) \<Rightarrow> string \<Rightarrow> item \<Rightarrow> string \<Rightarrow> exc + bool" where
  "field_contains lower query item k =
     (case dict_get item k (JStr []) of
        JStr s \<Rightarrow> Inr (str_contains (lower query) (lower s))
      | _ \<Rightarrow> Inl AttributeError)"

text \<open>The three tests joined by \<^verbatim>\<open>or\<close>: a later one runs only if the earlier ones are false.\<close>

definition item_matches :: "(string \<Rightarrow> string) \<Rightarrow> string \<Rightarrow> item \<Rightarrow> exc + bool" where
  "item_matches lower query item =
     (case field_contains lower query item ''keyword'' of
        Inl e \<Rightarrow> Inl e
      | Inr True \<Rightarrow> Inr True
      | Inr False \<Rightarrow>
          (case field_contains lower query item ''output'' of
             Inl e \<Rightarrow> Inl e
           | Inr True \<Rightarrow> Inr True
           | Inr False \<Rightarrow> field_contains lower query item ''tags''))"

text \<open>
  \<^verbatim>\<open>filter_type and filter_type != "All" and item.get("content_type") != filter_type\<close>;
  \<^verbatim>\<open>None\<close> and the empty string are false.
\<close>

definition type_excluded :: "string option \<Rightarrow> item \<Rightarrow> bool" where
  "type_excluded filter_type item =
     (case filter_type of
        None \<Rightarrow> False
      | Some t \<Rightarrow> t \<noteq> [] \<and> t \<noteq> ''All'' \<and> dict_get item ''content_type'' JNull \<noteq> JStr t)"

text \<open>The loop of \<^verbatim>\<open>search_history\<close>, with \<open>results\<close> as the accumulator.\<close>

fun search_loop ::
  "(string \<Rightarrow> string) \<Rightarrow> string \<Rightarrow> string option \<Rightarrow> bool \<Rightarrow> history \<Rightarrow> history \<Rightarrow> exc + history"
where
  "search_loop lower query filter_type filter_favorite results [] = Inr results"
| "search_loop lower query filter_type filter_favorite results (item # rest) =
     (if filter_favorite \<and> \<not> truthy (dict_get item ''favorite'' (JBool False))
      then search_loop lower query filter_type filter_favorite results rest
      else if type_excluded filter_type item
      then search_loop lower query filter_type filter_favorite results rest
      else (case item_matches lower query item of
              Inl e \<Rightarrow> Inl e
            | Inr True \<Rightarrow>
                search_loop lower query filter_type filter_favorite (results @ [item]) rest
            | Inr False \<Rightarrow>
                search_loop lower query filter_type filter_favorite results rest))"

definition search_history ::
  "(string \<Rightarrow> string) \<Rightarrow> string \<Rightarrow> string option \<Rightarrow> bool \<Rightarrow> file_state \<Rightarrow> exc + history"
where
  "search_history lower query filter_type filter_favorite fs =
     search_loop lower query filter_type filter_favorite [] (load_history fs)"

text \<open>One pass of the loop body of \<^verbatim>\<open>export_history_as_text\<close>: ten \<^verbatim>\<open>content +=\<close>.\<close>

definition export_item :: "(json \<Rightarrow> string) \<Rightarrow> string \<Rightarrow> item \<Rightarrow> string" where
  "export_item repr content item =
     (let content = content @ ''ID: '' @ py_str repr (dict_get item ''id'' (JStr ''N/A'')) @ nl;
          content = content @ ''Keyword: ''
                      @ py_str repr (dict_get item ''keyword'' (JStr ''N/A'')) @ nl;
          content = content @ ''Type: ''
                      @ py_str repr (dict_get item ''content_type'' (JStr ''N/A'')) @ nl;
          content = content @ ''Language: ''
                      @ py_str repr (dict_get item ''language'' (JStr ''N/A'')) @ nl;
          content = content @ ''Tone: '' @ py_str repr (dict_get item ''tone'' (JStr ''N/A'')) @ nl;
          content = content @ ''Date: ''
                      @ py_str repr (dict_get item ''timestamp'' (JStr ''N/A'')) @ nl;
          content = content @ ''Favorite: ''
                      @ (if truthy (dict_get item ''favorite'' JNull) then ''Yes'' else ''No'') @ nl;
          content = content @ ''Tags: '' @ py_str repr (dict_get item ''tags'' (JStr ''None'')) @ nl;
          content = content @ ''Content:'' @ nl
                      @ py_str repr (dict_get item ''output'' (JStr ''N/A'')) @ nl;
          content = content @ replicate 30 (CHR ''-'') @ nl @ nl
      in content)"

definition export_header :: string where
  "export_header =
     (let content = ''AI Quote & Poem Generator - Content History'' @ nl;
          content = content @ replicate 50 (CHR ''='') @ nl @ nl
      in content)"

definition export_history_as_text :: "(json \<Rightarrow> string) \<Rightarrow> file_state \<Rightarrow> string" where
  "export_history_as_text repr fs = foldl (export_item repr) export_header (load_history fs)"

subsection \<open>Notions used to state the properties of search and export\<close>

text \<open>
  The text of a field as \<open>search_history\<close> reads it: an absent field is the empty string,
  and a value that is not a string has no text.
\<close>

definition text_field :: "item \<Rightarrow> string \<Rightarrow> string option" where
  "text_field r k = (case dict_get r k (JStr []) of JStr s \<Rightarrow> Some s | _ \<Rightarrow> None)"

definition text_fields_ok :: "history \<Rightarrow> bool" where
  "text_fields_ok h =
     list_all (\<lambda>r. text_field r ''keyword'' \<noteq> None \<and> text_field r ''output'' \<noteq> None
                  \<and> text_field r ''tags'' \<noteq> None) h"

text \<open>
  "The field contains the query, ignoring case": the lower-cased query occurs in the
  lower-cased text as a contiguous block.
\<close>

definition ci_contains :: "(string \<Rightarrow> string) \<Rightarrow> string \<Rightarrow> string option \<Rightarrow> bool" where
  "ci_contains lower query field =
     (case field of None \<Rightarrow> False | Some s \<Rightarrow> sublist (lower query) (lower s))"

definition matches_query :: "(string \<Rightarrow> string) \<Rightarrow> string \<Rightarrow> item \<Rightarrow> bool" where
  "matches_query lower query r =
     (ci_contains lower query (text_field r ''keyword'')
      \<or> ci_contains lower query (text_field r ''output'')
      \<or> ci_contains lower query (text_field r ''tags''))"

text \<open>\<^verbatim>\<open>str.lower\<close> on ASCII text, for concrete examples.\<close>

definition ascii_lower :: "string \<Rightarrow> string" where
  "ascii_lower s =
     map (\<lambda>c. dict_get (zip ''ABCDEFGHIJKLMNOPQRSTUVWXYZ'' ''abcdefghijklmnopqrstuvwxyz'') c c) s"

text \<open>The block of text that the export writes for one record.\<close>

definition export_section :: "(json \<Rightarrow> string) \<Rightarrow> item \<Rightarrow> string" where
  "export_section repr item = export_item repr [] item"

section \<open>Prompt builder (app.py, lines 119 to 183)\<close>

definition content_instructions :: "int \<Rightarrow> (string \<times> string) list" where
  "content_instructions length_words =
     [(''Quote'', ''Write a memorable, inspiring quote''),
      (''Poem'', ''Create a '' @ str_int length_words @ ''-word poem (3-8 lines preferred)''),
      (''Haiku'', ''Write a traditional 3-line Haiku (5-7-5 syllable pattern)''),
      (''Motivational Saying'', ''Create an uplifting motivational saying''),
      (''Social Media Caption'', ''Write a catchy social media caption (under 280 characters)''),
      (''Song Lyrics'', ''Write song lyrics with rhythm and flow''),
      (''Story Beginning'', ''Write an engaging story opening paragraph'')]"

definition language_map :: "(string \<times> string) list" where
  "language_map =
     [(''English'', []),
      (''Hindi'', ''Write in Hindi language''),
      (''Marathi'', ''Write in Marathi language''),
      (''Spanish'', ''Write in Spanish language''),
      (''French'', ''Write in French language''),
      (''German'', ''Write in German language'')]"

definition tone_map :: "(string \<times> string) list" where
  "tone_map =
     [(''Funny'', ''Make it humorous and witty''),
      (''Serious'', ''Keep it thoughtful and profound''),
      (''Romantic'', ''Make it romantic and heartfelt''),
      (''Professional'', ''Keep it professional and polished''),
      (''Inspirational'', ''Make it uplifting and motivating'')]"

definition audience_map :: "(string \<times> string) list" where
  "audience_map =
     [(''Kids'', ''Use simple, fun language suitable for children''),
      (''Adults'', ''Use mature, sophisticated language''),
      (''Professionals'', ''Use formal, business-appropriate language''),
      (''General'', [])]"

definition rhyme_map :: "(string \<times> string) list" where
  "rhyme_map =
     [(''Free Verse'', ''Use free verse (no specific rhyme scheme)''),
      (''ABAB'', ''Use ABAB rhyme scheme''),
      (''AABB'', ''Use AABB rhyme scheme (couplets)''),
      (''ABCB'', ''Use ABCB rhyme scheme'')]"

text \<open>The prompt before the final \<^verbatim>\<open>strip()\<close>: the first line and the four guarded \<^verbatim>\<open>+=\<close>.\<close>

definition prompt_unstripped ::
  "string \<Rightarrow> string \<Rightarrow> string \<Rightarrow> string \<Rightarrow> string \<Rightarrow> string \<Rightarrow> int \<Rightarrow> string"
where
  "prompt_unstripped keyword content_type language tone audience rhyme_scheme length_words =
     (let prompt = dict_get (content_instructions length_words) content_type ''Write content''
                     @ '' about '' @ quote @ keyword @ quote @ ''. '';
          prompt = (if language \<noteq> ''English''
                    then prompt @ dict_get language_map language [] @ ''. '' else prompt);
          prompt = (if tone \<noteq> ''Inspirational''
                    then prompt @ dict_get tone_map tone [] @ ''. '' else prompt);
          prompt = (if audience \<noteq> ''General''
                    then prompt @ dict_get audience_map audience [] @ ''. '' else prompt);
          prompt = (if content_type = ''Poem'' \<and> rhyme_scheme \<noteq> ''Free Verse''
                    then prompt @ dict_get rhyme_map rhyme_scheme [] @ ''. '' else prompt)
      in prompt)"

definition build_prompt ::
  "string \<Rightarrow> string \<Rightarrow> string \<Rightarrow> string \<Rightarrow> string \<Rightarrow> string \<Rightarrow> int \<Rightarrow> string"
where
  "build_prompt keyword content_type language tone audience rhyme_scheme length_words =
     strip (prompt_unstripped keyword content_type language tone audience rhyme_scheme
              length_words)"

subsection \<open>A notion used in the proofs about the prompt\<close>

text \<open>The text \<open>p\<close> does not occur in \<open>s\<close>, and \<open>s\<close> is empty or ends in a space.\<close>

definition spaced_without :: "string \<Rightarrow> string \<Rightarrow> bool" where
  "spaced_without p s = (\<not> sublist p s \<and> (s = [] \<or> last s = CHR '' ''))"

section \<open>Generation client (app.py, lines 22 to 116)\<close>

text \<open>
  The module-level configuration after \<^verbatim>\<open>load_dotenv\<close>: \<^verbatim>\<open>os.getenv\<close> gives \<^verbatim>\<open>None\<close>
  for a variable that is not set.
\<close>

record config =
  MODEL_PROVIDER :: string
  GEMINI_API_KEY :: "string option"
  GEMINI_MODEL :: string
  OPENAI_API_KEY :: "string option"
  OPENAI_MODEL :: string

text \<open>
  What \<^verbatim>\<open>requests.post\<close> is called with and what it answers. The temperature is a float
  that the code only passes on, so its type is left open. \<^verbatim>\<open>resp.json()\<close> either raises
  (\<open>Inl\<close> holds the text of the exception) or gives the parsed body.
\<close>

record 't gemini_request =
  req_url :: string
  req_key :: string
  req_text :: string
  req_temperature :: 't
  req_max_tokens :: int

record response =
  resp_ok :: bool
  resp_status_code :: int
  resp_json :: "string + json"
  resp_text :: string

datatype post_outcome =
    PostRaises string
  | PostReturns response

text \<open>
  The call of \<^verbatim>\<open>openai.ChatCompletion.create\<close>: it raises an exception of the library, or
  returns choices, of which the code reads \<^verbatim>\<open>message.content\<close> (which can be \<^verbatim>\<open>None\<close>).
\<close>

record 't openai_request =
  oa_key :: "string option"
  oa_model :: string
  oa_content :: string
  oa_max_tokens :: int
  oa_temperature :: 't

datatype chat_outcome =
    ChatRaises exc
  | ChatReturns "string option list"

text \<open>
  Everything outside app.py that the client depends on: \<^verbatim>\<open>str.lower\<close>, \<^verbatim>\<open>repr\<close>, the
  HTTP call, whether \<^verbatim>\<open>import openai\<close> fails (with which text), and the library call.
\<close>

record 't externals =
  str_lower :: "string \<Rightarrow> string"
  py_repr :: "json \<Rightarrow> string"
  requests_post :: "'t gemini_request \<Rightarrow> post_outcome"
  import_openai_fails :: "string option"
  chat_completion_create :: "'t openai_request \<Rightarrow> chat_outcome"

text \<open>
  The steps inside the \<^verbatim>\<open>try\<close> of \<^verbatim>\<open>generate_with_gemini\<close> give \<open>string + 'a\<close>:
  \<open>Inl\<close> holds \<^verbatim>\<open>str(e)\<close> of the exception \<open>e\<close> that the step raises, which the
  \<^verbatim>\<open>except Exception as e\<close> at the end puts into its \<^verbatim>\<open>RuntimeError\<close>.
\<close>

fun type_name :: "json \<Rightarrow> string" where
  "type_name JNull = ''NoneType''"
| "type_name (JBool b) = ''bool''"
| "type_name (JInt n) = ''int''"
| "type_name (JStr s) = ''str''"
| "type_name (JArr xs) = ''list''"
| "type_name (JObj kvs) = ''dict''"

definition no_attribute :: "json \<Rightarrow> string \<Rightarrow> string" where
  "no_attribute v a = quote @ type_name v @ quote @ '' object has no attribute '' @ quote @ a @ quote"

text \<open>\<^verbatim>\<open>v.get(k, default)\<close> on a parsed JSON value: only a dict has the method.\<close>

fun attr_get :: "json \<Rightarrow> string \<Rightarrow> json \<Rightarrow> string + json" where
  "attr_get (JObj kvs) k dflt = Inr (dict_get kvs k dflt)"
| "attr_get v k dflt = Inl (no_attribute v ''get'')"

text \<open>\<^verbatim>\<open>v and len(v) > 0\<close>: a false \<open>v\<close> ends the test, and \<^verbatim>\<open>len\<close> raises on a number.\<close>

fun nonempty :: "json \<Rightarrow> string + bool" where
  "nonempty (JStr s) = Inr (s \<noteq> [] \<and> length s > 0)"
| "nonempty (JArr xs) = Inr (xs \<noteq> [] \<and> length xs > 0)"
| "nonempty (JObj kvs) = Inr (kvs \<noteq> [] \<and> length kvs > 0)"
| "nonempty v =
     (if \<not> truthy v then Inr False
      else Inl (''object of type '' @ quote @ type_name v @ quote @ '' has no len()''))"

text \<open>
  \<^verbatim>\<open>v[0]\<close>: the first element of a list, the first character of a string; on a dict it
  is a lookup of the key 0, which no JSON object has.
\<close>

fun first :: "json \<Rightarrow> string + json" where
  "first (JArr (x # xs)) = Inr x"
| "first (JArr []) = Inl ''list index out of range''"
| "first (JStr (c # cs)) = Inr (JStr [c])"
| "first (JStr []) = Inl ''string index out of range''"
| "first (JObj kvs) = Inl ''0''"
| "first v = Inl (quote @ type_name v @ quote @ '' object is not subscriptable'')"

fun str_strip :: "json \<Rightarrow> string + string" where
  "str_strip (JStr s) = Inr (strip s)"
| "str_strip v = Inl (no_attribute v ''strip'')"

text \<open>From \<^verbatim>\<open>data = resp.json()\<close> to the last \<^verbatim>\<open>return\<close> of the \<^verbatim>\<open>try\<close> block.\<close>

definition gemini_extract :: "json \<Rightarrow> string + string" where
  "gemini_extract data =
     (case attr_get data ''candidates'' (JArr []) of
        Inl m \<Rightarrow> Inl m
      | Inr candidates \<Rightarrow>
     (case nonempty candidates of
        Inl m \<Rightarrow> Inl m
      | Inr False \<Rightarrow> Inr ''No response generated''
      | Inr True \<Rightarrow>
     (case first candidates of
        Inl m \<Rightarrow> Inl m
      | Inr candidate \<Rightarrow>
     (case attr_get candidate ''content'' (JObj []) of
        Inl m \<Rightarrow> Inl m
      | Inr content \<Rightarrow>
     (case attr_get content ''parts'' (JArr []) of
        Inl m \<Rightarrow> Inl m
      | Inr parts \<Rightarrow>
     (case nonempty parts of
        Inl m \<Rightarrow> Inl m
      | Inr False \<Rightarrow> Inr ''No response generated''
      | Inr True \<Rightarrow>
     (case first parts of
        Inl m \<Rightarrow> Inl m
      | Inr part \<Rightarrow>
     (case attr_get part ''text'' (JStr []) of
        Inl m \<Rightarrow> Inl m
      | Inr t \<Rightarrow> str_strip t))))))))"

text \<open>The body of the \<^verbatim>\<open>try\<close>: the call, the test of \<^verbatim>\<open>resp.ok\<close>, the extraction.\<close>

definition gemini_attempt ::
  "'t externals \<Rightarrow> 't gemini_request \<Rightarrow> string + string"
where
  "gemini_attempt ext req =
     (case requests_post ext req of
        PostRaises m \<Rightarrow> Inl m
      | PostReturns resp \<Rightarrow>
          if \<not> resp_ok resp
          then (let err_body = (case resp_json resp of
                                  Inr body \<Rightarrow> py_str (py_repr ext) body
                                | Inl m \<Rightarrow> resp_text resp)
                in Inl (''Gemini API error ('' @ str_int (resp_status_code resp) @ ''): ''
                          @ err_body))
          else (case resp_json resp of
                  Inl m \<Rightarrow> Inl m
                | Inr data \<Rightarrow> gemini_extract data))"

definition generate_with_gemini ::
  "'t externals \<Rightarrow> string \<Rightarrow> string \<Rightarrow> string option \<Rightarrow> int \<Rightarrow> 't \<Rightarrow> exc + string"
where
  "generate_with_gemini ext prompt model api_key max_tokens temperature =
     (case api_key of
        None \<Rightarrow> Inl (RuntimeError ''GEMINI_API_KEY not set'')
      | Some key \<Rightarrow>
          (let url = ''https://generativelanguage.googleapis.com/v1beta/models/'' @ model
                       @ '':generateContent''
           in case gemini_attempt ext
                     \<lparr>req_url = url, req_key = key, req_text = prompt,
                      req_temperature = temperature, req_max_tokens = max_tokens\<rparr> of
                Inl m \<Rightarrow> Inl (RuntimeError (''Gemini generation failed: '' @ m))
              | Inr s \<Rightarrow> Inr s))"

text \<open>\<^verbatim>\<open>if api_key:\<close> and \<^verbatim>\<open>if not KEY:\<close>: \<^verbatim>\<open>None\<close> and the empty string are false.\<close>

definition key_given :: "string option \<Rightarrow> bool" where
  "key_given k = (case k of None \<Rightarrow> False | Some s \<Rightarrow> s \<noteq> [])"

definition generate_with_openai ::
  "'t externals \<Rightarrow> string \<Rightarrow> string \<Rightarrow> string option \<Rightarrow> int \<Rightarrow> 't \<Rightarrow> exc + string"
where
  "generate_with_openai ext prompt model api_key max_tokens temperature =
     (case import_openai_fails ext of
        Some m \<Rightarrow> Inl (RuntimeError (''openai package not installed or unavailable: '' @ m))
      | None \<Rightarrow>
          (case chat_completion_create ext
                  \<lparr>oa_key = (if key_given api_key then api_key else None), oa_model = model,
                   oa_content = prompt, oa_max_tokens = max_tokens,
                   oa_temperature = temperature\<rparr> of
             ChatRaises e \<Rightarrow> Inl e
           | ChatReturns [] \<Rightarrow> Inl IndexError
           | ChatReturns (None # choices) \<Rightarrow> Inl AttributeError
           | ChatReturns (Some content # choices) \<Rightarrow> Inr (strip content)))"

definition generate_text ::
  "'t externals \<Rightarrow> config \<Rightarrow> string \<Rightarrow> string \<Rightarrow> int \<Rightarrow> 't \<Rightarrow> exc + string"
where
  "generate_text ext cfg prompt provider max_tokens temperature =
     (let provider = str_lower ext provider in
      if provider = ''gemini'' then
        (if \<not> key_given (GEMINI_API_KEY cfg)
         then Inl (RuntimeError ''GEMINI_API_KEY not found in environment. Set it in .env.'')
         else generate_with_gemini ext prompt (GEMINI_MODEL cfg) (GEMINI_API_KEY cfg)
                max_tokens temperature)
      else if provider = ''openai'' then
        (if \<not> key_given (OPENAI_API_KEY cfg)
         then Inl (RuntimeError ''OPENAI_API_KEY not found in environment. Set it in .env.'')
         else generate_with_openai ext prompt (OPENAI_MODEL cfg) (OPENAI_API_KEY cfg)
                max_tokens temperature)
      else Inl (ValueError (''Unknown model provider: '' @ provider)))"

subsection \<open>Notions used to state the properties of the client\<close>

text \<open>
  The response that the Gemini endpoint gives to the request of a call of
  \<open>generate_text\<close>, when the call gets as far as the request and the request returns.
\<close>

definition gemini_answer ::
  "'t externals \<Rightarrow> config \<Rightarrow> string \<Rightarrow> string \<Rightarrow> int \<Rightarrow> 't \<Rightarrow> response option"
where
  "gemini_answer ext cfg prompt provider max_tokens temperature =
     (if str_lower ext provider \<noteq> ''gemini'' then None
      else case GEMINI_API_KEY cfg of
        None \<Rightarrow> None
      | Some key \<Rightarrow>
          if key = [] then None
          else (case requests_post ext
                       \<lparr>req_url = ''https://generativelanguage.googleapis.com/v1beta/models/''
                                    @ GEMINI_MODEL cfg @ '':generateContent'',
                        req_key = key, req_text = prompt, req_temperature = temperature,
                        req_max_tokens = max_tokens\<rparr> of
                  PostRaises m \<Rightarrow> None
                | PostReturns resp \<Rightarrow> Some resp))"

text \<open>The body of an error response as the error message shows it.\<close>

definition error_body :: "'t externals \<Rightarrow> response \<Rightarrow> string" where
  "error_body ext resp =
     (case resp_json resp of Inr body \<Rightarrow> py_str (py_repr ext) body | Inl m \<Rightarrow> resp_text resp)"

text \<open>
  The content parts of the first candidate of a response of the documented shape; no
  parts when there is no candidate, no content or no part.
\<close>

definition candidate_parts :: "json \<Rightarrow> json list option" where
  "candidate_parts data =
     (case data of
        JObj kvs \<Rightarrow>
          (case dict_get kvs ''candidates'' (JArr []) of
             JArr [] \<Rightarrow> Some []
           | JArr (JObj candidate # candidates) \<Rightarrow>
               (case dict_get candidate ''content'' (JObj []) of
                  JObj content \<Rightarrow>
                    (case dict_get content ''parts'' (JArr []) of
                       JArr parts \<Rightarrow> Some parts
                     | _ \<Rightarrow> None)
                | _ \<Rightarrow> None)
           | _ \<Rightarrow> None)
      | _ \<Rightarrow> None)"

text \<open>A concrete environment (the HTTP call has the given outcome) and configuration.\<close>

definition canned_externals :: "post_outcome \<Rightarrow> string externals" where
  "canned_externals outcome =
     \<lparr>str_lower = ascii_lower, py_repr = (\<lambda>v. []), requests_post = (\<lambda>req. outcome),
      import_openai_fails = None, chat_completion_create = (\<lambda>req. ChatReturns [])\<rparr>"

definition example_config :: config where
  "example_config =
     \<lparr>MODEL_PROVIDER = ''gemini'', GEMINI_API_KEY = Some ''k'',
      GEMINI_MODEL = ''gemini-2.0-flash'', OPENAI_API_KEY = None, OPENAI_MODEL = ''gpt-4''\<rparr>"

section \<open>Properties of the history store\<close>

lemma load_history_simps:
  "load_history NoFile = []"
  "load_history (Unparsable e) = []"
  "load_history (Stored h) = h"
  by (simp_all add: load_history_def load_history_result_def)

lemma save_to_history_load:
  "load_history (save_to_history now record fs) =
     load_history fs @
       [AList.update ''favorite'' (JBool False)
          (AList.update ''timestamp'' (JStr now)
             (AList.update ''id'' (JInt (int (length (load_history fs)) + 1)) record))]"
  by (simp add: save_to_history_def load_history_simps Let_def)

lemma id_of_update_other: "k \<noteq> ''id'' \<Longrightarrow> id_of (AList.update k v r) = id_of r"
  by (simp add: id_of_def update_conv')

lemma toggle_loop_ids: "toggle_loop i h = Inr h' \<Longrightarrow> map id_of h' = map id_of h"
proof (induction h arbitrary: h')
  case Nil
  then show ?case by simp
next
  case (Cons r rs)
  then show ?case
    by (auto simp: id_of_update_other split: sum.splits if_splits)
qed

lemma toggle_loop_length: "toggle_loop i h = Inr h' \<Longrightarrow> length h' = length h"
  using toggle_loop_ids [of i h h'] by (metis length_map)

subsection \<open>Ids when nothing is deleted\<close>

lemma ids_sequential_save:
  assumes "ids_sequential (load_history fs)"
  shows "ids_sequential (load_history (save_to_history now record fs))"
proof -
  have "id_of (AList.update ''favorite'' (JBool False)
          (AList.update ''timestamp'' (JStr now)
             (AList.update ''id'' (JInt (int (length (load_history fs)) + 1)) record)))
        = Some (JInt (int (Suc (length (load_history fs)))))"
    by (simp add: id_of_def update_conv' add.commute)
  with assms show ?thesis
    by (simp add: ids_sequential_def save_to_history_load)
qed

lemma ids_sequential_apply_op:
  assumes "ids_sequential (load_history fs)" and "\<not> is_delete e"
  shows "ids_sequential (load_history (apply_op fs e))"
proof (cases e)
  case (Append now r)
  with assms show ?thesis by (simp add: ids_sequential_save)
next
  case (Toggle i)
  show ?thesis
  proof (cases "toggle_loop i (load_history fs)")
    case (Inl e)
    with Toggle assms show ?thesis by (simp add: toggle_favorite_def)
  next
    case (Inr h')
    from toggle_loop_ids [OF Inr] toggle_loop_length [OF Inr] assms(1)
    have "ids_sequential h'" by (simp add: ids_sequential_def)
    with Toggle Inr show ?thesis by (simp add: toggle_favorite_def load_history_simps)
  qed
next
  case (Delete i)
  with assms show ?thesis by simp
next
  case ClearAll
  then show ?thesis by (simp add: ids_sequential_def load_history_simps)
qed

lemma ids_sequential_run:
  "ids_sequential (load_history fs) \<Longrightarrow> list_all (\<lambda>e. \<not> is_delete e) ops \<Longrightarrow>
   ids_sequential (load_history (run ops fs))"
  unfolding run_def
  by (induction ops arbitrary: fs) (auto simp: ids_sequential_apply_op)

lemma ids_sequential_nth:
  assumes "ids_sequential h" and "k < length h"
  shows "id_of (h ! k) = Some (JInt (int k + 1))"
proof -
  from assms(2) have "id_of (h ! k) = map id_of h ! k" by simp
  also from assms have "\<dots> = Some (JInt (int ([1..<Suc (length h)] ! k)))"
    unfolding ids_sequential_def by (simp del: upt_Suc)
  also from assms(2) have "[1..<Suc (length h)] ! k = 1 + k"
    by (intro nth_upt) simp
  finally show ?thesis by (simp add: add.commute)
qed

text \<open>
  C1. The store is meant to keep ids unique, and the code uses the id as the key of a
  record (toggle and delete look records up by it). The id of a new record is the number
  of records plus one, so after two appends, the deletion of record 1 and one more append,
  both records of the store have the id 2.
\<close>

theorem duplicate_ids_after_delete_and_append:
  "map id_of (load_history (run [Append ''t1'' [(''keyword'', JStr ''a'')],
                                 Append ''t2'' [(''keyword'', JStr ''b'')],
                                 Delete 1,
                                 Append ''t3'' [(''keyword'', JStr ''c'')]] NoFile))
     = [Some (JInt 2), Some (JInt 2)]"
  by (simp add: run_def save_to_history_def delete_content_def load_history_simps
      subscript_def id_of_def)

text \<open>
  C2, as the claim states it, fails: in the store reached by two appends and the deletion
  of record 1, the only record has the id 2, and the record appended next gets the id 2
  as well, which is not greater.
\<close>

theorem append_id_counterexample:
  "load_history (run [Append ''t1'' [(''keyword'', JStr ''a'')],
                      Append ''t2'' [(''keyword'', JStr ''b'')], Delete 1] NoFile)
     = [[(''keyword'', JStr ''b''), (''id'', JInt 2), (''timestamp'', JStr ''t2''),
         (''favorite'', JBool False)]]
   \<and> load_history (save_to_history ''t3'' [(''keyword'', JStr ''c'')]
        (run [Append ''t1'' [(''keyword'', JStr ''a'')],
              Append ''t2'' [(''keyword'', JStr ''b'')], Delete 1] NoFile))
     = [[(''keyword'', JStr ''b''), (''id'', JInt 2), (''timestamp'', JStr ''t2''),
         (''favorite'', JBool False)],
        [(''keyword'', JStr ''c''), (''id'', JInt 2), (''timestamp'', JStr ''t3''),
         (''favorite'', JBool False)]]
   \<and> \<not> (2::int) > 2"
  by (simp add: run_def save_to_history_def delete_content_def load_history_simps subscript_def)

text \<open>
  C2, amended. In every store that the writer reaches from no file by appends, favorite
  toggles and "clear all" (no deletion), an append followed by a load gives the earlier
  records followed by the new one, which has \<open>favorite = False\<close>, the id
  \<open>length + 1\<close> and the time stamp of the save; every earlier record has an integer id
  that is smaller than the new one.
\<close>

theorem append_then_load:
  assumes "list_all (\<lambda>e. \<not> is_delete e) ops"
  shows "\<exists>r. load_history (save_to_history now record (run ops NoFile))
               = load_history (run ops NoFile) @ [r]
           \<and> map_of r ''favorite'' = Some (JBool False)
           \<and> map_of r ''id'' = Some (JInt (int (length (load_history (run ops NoFile))) + 1))
           \<and> map_of r ''timestamp'' = Some (JStr now)
           \<and> (\<forall>p\<in>set (load_history (run ops NoFile)).
                 \<exists>v. map_of p ''id'' = Some (JInt v)
                   \<and> v < int (length (load_history (run ops NoFile))) + 1)"
proof -
  let ?h = "load_history (run ops NoFile)"
  let ?r = "AList.update ''favorite'' (JBool False)
          (AList.update ''timestamp'' (JStr now)
             (AList.update ''id'' (JInt (int (length ?h) + 1)) record))"
  have seq: "ids_sequential ?h"
    using assms by (intro ids_sequential_run) (simp_all add: ids_sequential_def load_history_simps)
  have older: "\<exists>v. map_of p ''id'' = Some (JInt v) \<and> v < int (length ?h) + 1" if "p \<in> set ?h" for p
  proof -
    from that obtain k where k: "k < length ?h" "p = ?h ! k"
      by (auto simp: in_set_conv_nth)
    with ids_sequential_nth [OF seq k(1)] show ?thesis
      by (simp add: id_of_def)
  qed
  have "load_history (save_to_history now record (run ops NoFile)) = ?h @ [?r]"
    by (rule save_to_history_load)
  moreover have "map_of ?r ''favorite'' = Some (JBool False)"
    by (simp add: update_conv')
  moreover have "map_of ?r ''id'' = Some (JInt (int (length ?h) + 1))"
    by (simp add: update_conv')
  moreover have "map_of ?r ''timestamp'' = Some (JStr now)"
    by (simp add: update_conv')
  ultimately show ?thesis using older by blast
qed

theorem append_then_load_witness:
  "list_all (\<lambda>e. \<not> is_delete e)
     [Append ''2024-05-01T10:00:00'' [(''keyword'', JStr ''sea'')], Toggle 1]
   \<and> (\<exists>r. load_history (save_to_history ''2024-05-02T09:30:00.125000'' [(''keyword'', JStr ''sky'')]
              (run [Append ''2024-05-01T10:00:00'' [(''keyword'', JStr ''sea'')], Toggle 1] NoFile))
            = [[(''keyword'', JStr ''sea''), (''id'', JInt 1),
                (''timestamp'', JStr ''2024-05-01T10:00:00''), (''favorite'', JBool True)], r]
          \<and> map_of r ''id'' = Some (JInt 2))"
proof -
  have h: "list_all (\<lambda>e. \<not> is_delete e)
             [Append ''2024-05-01T10:00:00'' [(''keyword'', JStr ''sea'')], Toggle 1]"
    by simp
  have l: "load_history (run [Append ''2024-05-01T10:00:00'' [(''keyword'', JStr ''sea'')],
                              Toggle 1] NoFile)
      = [[(''keyword'', JStr ''sea''), (''id'', JInt 1),
          (''timestamp'', JStr ''2024-05-01T10:00:00''), (''favorite'', JBool True)]]"
    by (simp add: run_def save_to_history_def toggle_favorite_def load_history_simps
        subscript_def dict_get_def)
  from append_then_load [OF h, of "''2024-05-02T09:30:00.125000''" "[(''keyword'', JStr ''sky'')]"]
  show ?thesis using h unfolding l by auto
qed

subsection \<open>Loading\<close>

text \<open>
  C4. \<open>load_history\<close> gives the empty list when the file is absent and when reading or
  parsing it raises (whatever the exception), gives the stored list when the file parses,
  and never raises.
\<close>

theorem load_history_never_raises:
  "load_history_result NoFile = Inr []
   \<and> load_history_result (Unparsable e) = Inr []
   \<and> load_history_result (Stored h) = Inr h
   \<and> (\<exists>h'. load_history_result fs = Inr h')"
  by (cases fs) (simp_all add: load_history_result_def)

subsection \<open>Appending\<close>

text \<open>
  C10. An append leaves the records that a load saw before in place and adds one record
  at the end. Every key of the input other than \<open>id\<close>, \<open>timestamp\<close> and \<open>favorite\<close>
  keeps its value (in particular the nine fields that the generator page fills in), and
  the keys of the new record are those of the input and these three.
\<close>

theorem save_to_history_frame:
  "\<exists>r. load_history (save_to_history now record fs) = load_history fs @ [r]
      \<and> (\<forall>k. k \<notin> {''id'', ''timestamp'', ''favorite''} \<longrightarrow> map_of r k = map_of record k)
      \<and> map (map_of r) [''keyword'', ''content_type'', ''language'', ''tone'', ''audience'',
                         ''rhyme_scheme'', ''length_words'', ''tags'', ''output'']
          = map (map_of record) [''keyword'', ''content_type'', ''language'', ''tone'',
                                 ''audience'', ''rhyme_scheme'', ''length_words'', ''tags'',
                                 ''output'']
      \<and> fst ` set r = fst ` set record \<union> {''id'', ''timestamp'', ''favorite''}"
proof -
  let ?r = "AList.update ''favorite'' (JBool False)
          (AList.update ''timestamp'' (JStr now)
             (AList.update ''id'' (JInt (int (length (load_history fs)) + 1)) record))"
  have "load_history (save_to_history now record fs) = load_history fs @ [?r]"
    by (rule save_to_history_load)
  moreover have "\<forall>k. k \<notin> {''id'', ''timestamp'', ''favorite''} \<longrightarrow> map_of ?r k = map_of record k"
    by (simp add: update_conv')
  moreover have "map (map_of ?r) [''keyword'', ''content_type'', ''language'', ''tone'', ''audience'',
                         ''rhyme_scheme'', ''length_words'', ''tags'', ''output'']
          = map (map_of record) [''keyword'', ''content_type'', ''language'', ''tone'',
                                 ''audience'', ''rhyme_scheme'', ''length_words'', ''tags'',
                                 ''output'']"
    by (simp add: update_conv')
  moreover have "fst ` set ?r = fst ` set record \<union> {''id'', ''timestamp'', ''favorite''}"
    by (auto simp: dom_update)
  ultimately show ?thesis by blast
qed

theorem save_to_history_frame_witness:
  "''keyword'' \<notin> {''id'', ''timestamp'', ''favorite''}
   \<and> (\<exists>r. load_history (save_to_history ''2024-05-01T10:00:00''
                 [(''keyword'', JStr ''sea''), (''id'', JInt 7)] (Stored [[(''id'', JInt 1)]]))
             = [[(''id'', JInt 1)], r]
           \<and> map_of r ''keyword'' = Some (JStr ''sea''))"
proof -
  let ?rec = "[(''keyword'', JStr ''sea''), (''id'', JInt 7)]"
  let ?fs = "Stored [[(''id'', JInt 1)]]"
  have k: "''keyword'' \<notin> {''id'', ''timestamp'', ''favorite''}"
    by simp
  from save_to_history_frame [of "''2024-05-01T10:00:00''" ?rec ?fs]
  obtain r where
    r: "load_history (save_to_history ''2024-05-01T10:00:00'' ?rec ?fs) = load_history ?fs @ [r]
      \<and> (\<forall>k. k \<notin> {''id'', ''timestamp'', ''favorite''} \<longrightarrow> map_of r k = map_of ?rec k)
      \<and> map (map_of r) [''keyword'', ''content_type'', ''language'', ''tone'', ''audience'',
                         ''rhyme_scheme'', ''length_words'', ''tags'', ''output'']
          = map (map_of ?rec) [''keyword'', ''content_type'', ''language'', ''tone'',
                                 ''audience'', ''rhyme_scheme'', ''length_words'', ''tags'',
                                 ''output'']
      \<and> fst ` set r = fst ` set ?rec \<union> {''id'', ''timestamp'', ''favorite''}" ..
  from r have l: "load_history (save_to_history ''2024-05-01T10:00:00'' ?rec ?fs)
                    = load_history ?fs @ [r]"
    by (rule conjunct1)
  from r have "\<forall>k. k \<notin> {''id'', ''timestamp'', ''favorite''} \<longrightarrow> map_of r k = map_of ?rec k"
    by (rule conjunct1 [OF conjunct2])
  then have "''keyword'' \<notin> {''id'', ''timestamp'', ''favorite''}
               \<longrightarrow> map_of r ''keyword'' = map_of ?rec ''keyword''"
    by (rule spec)
  from this k have "map_of r ''keyword'' = map_of ?rec ''keyword''"
    by (rule mp)
  then have m: "map_of r ''keyword'' = Some (JStr ''sea'')"
    by simp
  from l have "load_history (save_to_history ''2024-05-01T10:00:00'' ?rec ?fs)
                 = [[(''id'', JInt 1)], r]"
    by (simp only: load_history_simps append.simps)
  with m have "\<exists>r. load_history (save_to_history ''2024-05-01T10:00:00'' ?rec ?fs)
                 = [[(''id'', JInt 1)], r] \<and> map_of r ''keyword'' = Some (JStr ''sea'')"
    by (intro exI conjI)
  with k show ?thesis by (rule conjI)
qed

subsection \<open>Deleting\<close>

lemma delete_filter_eq:
  "all_have_id h \<Longrightarrow> delete_filter i h = Inr (filter (\<lambda>r. \<not> has_id i r) h)"
  by (induction h) (auto simp: all_have_id_def has_id_def id_of_def subscript_def split: option.splits)

lemma length_filter_split:
  "length (filter (\<lambda>r. \<not> P r) h) + length (filter P h) = length h"
  by (induction h) auto

text \<open>
  C3, as the claim states it, fails: the store reached by two appends, the deletion of
  record 1 and a third append holds two records with the id 2, and deleting the id 2
  removes both of them, not the first one only: the size goes from 2 to 0.
\<close>

theorem delete_content_counterexample:
  "load_history (run [Append ''t1'' [(''keyword'', JStr ''a'')],
                      Append ''t2'' [(''keyword'', JStr ''b'')],
                      Delete 1,
                      Append ''t3'' [(''keyword'', JStr ''c'')]] NoFile)
     = [[(''keyword'', JStr ''b''), (''id'', JInt 2), (''timestamp'', JStr ''t2''),
         (''favorite'', JBool False)],
        [(''keyword'', JStr ''c''), (''id'', JInt 2), (''timestamp'', JStr ''t3''),
         (''favorite'', JBool False)]]
   \<and> delete_content 2 (run [Append ''t1'' [(''keyword'', JStr ''a'')],
                            Append ''t2'' [(''keyword'', JStr ''b'')],
                            Delete 1,
                            Append ''t3'' [(''keyword'', JStr ''c'')]] NoFile)
     = Inr (Stored [], True)"
  by (simp add: run_def save_to_history_def delete_content_def load_history_simps subscript_def)

text \<open>
  C3, amended. In a store whose records all have an id, \<open>delete_content\<close> removes every
  record with the given id and returns whether there was one. The size goes down by the
  number of records with that id, so by exactly 1 when exactly one record has it; when no
  record has it, the stored records stay as they are and the result is \<open>False\<close>.
\<close>

theorem delete_content_removes_matching:
  assumes "all_have_id (load_history fs)"
  shows "\<exists>h'. delete_content i fs = Inr (Stored h', list_ex (has_id i) (load_history fs))
           \<and> h' = filter (\<lambda>r. \<not> has_id i r) (load_history fs)
           \<and> length h' + length (filter (has_id i) (load_history fs)) = length (load_history fs)
           \<and> (length (filter (has_id i) (load_history fs)) = 1
                \<longrightarrow> length h' + 1 = length (load_history fs))
           \<and> (\<not> list_ex (has_id i) (load_history fs) \<longrightarrow> h' = load_history fs)"
proof -
  let ?h = "load_history fs"
  let ?h' = "filter (\<lambda>r. \<not> has_id i r) ?h"
  have len: "length ?h' + length (filter (has_id i) ?h) = length ?h"
    by (rule length_filter_split)
  have "(length ?h \<noteq> length ?h') = list_ex (has_id i) ?h"
  proof
    assume "length ?h \<noteq> length ?h'"
    with len have "filter (has_id i) ?h \<noteq> []" by auto
    then show "list_ex (has_id i) ?h"
      by (auto simp: list_ex_iff filter_empty_conv)
  next
    assume "list_ex (has_id i) ?h"
    then have "filter (has_id i) ?h \<noteq> []"
      by (auto simp: list_ex_iff filter_empty_conv)
    with len show "length ?h \<noteq> length ?h'" by auto
  qed
  with assms have "delete_content i fs = Inr (Stored ?h', list_ex (has_id i) ?h)"
    by (simp add: delete_content_def delete_filter_eq Let_def)
  moreover have "\<not> list_ex (has_id i) ?h \<longrightarrow> ?h' = ?h"
    by (auto simp: list_ex_iff filter_id_conv)
  ultimately show ?thesis using len by auto
qed

theorem delete_content_removes_matching_witness:
  "all_have_id (load_history (Stored [[(''id'', JInt 1)], [(''id'', JInt 2)]]))
   \<and> delete_content 2 (Stored [[(''id'', JInt 1)], [(''id'', JInt 2)]])
       = Inr (Stored [[(''id'', JInt 1)]], True)"
proof -
  have h: "all_have_id (load_history (Stored [[(''id'', JInt 1)], [(''id'', JInt 2)]]))"
    by (simp add: all_have_id_def id_of_def load_history_simps)
  from delete_content_removes_matching [OF h, of 2] show ?thesis
    using h by (simp add: load_history_simps has_id_def id_of_def)
qed

subsection \<open>Toggling the favorite flag\<close>

lemma toggle_loop_total:
  "all_have_id h \<Longrightarrow> \<exists>h'. toggle_loop i h = Inr h'"
  by (induction h) (auto simp: all_have_id_def id_of_def subscript_def split: option.splits)

lemma toggle_loop_no_match:
  "all_have_id h \<Longrightarrow> \<not> list_ex (has_id i) h \<Longrightarrow> toggle_loop i h = Inr h"
  by (induction h) (auto simp: all_have_id_def has_id_def id_of_def subscript_def split: option.splits)

lemma toggle_loop_first_match:
  "all_have_id h \<Longrightarrow> k < length h \<Longrightarrow> has_id i (h ! k) \<Longrightarrow> \<forall>j<k. \<not> has_id i (h ! j) \<Longrightarrow>
   toggle_loop i h = Inr (h[k := flip_favorite (h ! k)])"
proof (induction h arbitrary: k)
  case Nil
  then show ?case by simp
next
  case (Cons r rs)
  show ?case
  proof (cases k)
    case 0
    with Cons.prems show ?thesis
      by (auto simp: all_have_id_def has_id_def id_of_def subscript_def favorite_of_def
          flip_favorite_def split: option.splits)
  next
    case (Suc k')
    from Cons.prems(4) Suc have nr: "\<not> has_id i r" by auto
    from Cons.prems Suc have "\<forall>j<k'. \<not> has_id i (rs ! j)" by auto
    with Cons.prems Suc have
      "toggle_loop i rs = Inr (rs[k' := flip_favorite (rs ! k')])"
      by (intro Cons.IH) (auto simp: all_have_id_def)
    with nr Cons.prems(1) Suc show ?thesis
      by (auto simp: all_have_id_def has_id_def id_of_def subscript_def split: option.splits)
  qed
qed

lemma flip_favorite_twice:
  assumes "case favorite_of r of JBool b \<Rightarrow> True | _ \<Rightarrow> False"
  shows "favorite_of (flip_favorite (flip_favorite r)) = favorite_of r"
    and "AList.delete ''favorite'' (flip_favorite (flip_favorite r)) = AList.delete ''favorite'' r"
    and "id_of (flip_favorite r) = id_of r"
  using assms
  by (auto simp: flip_favorite_def favorite_of_def dict_get_def update_conv' delete_update_same
      id_of_def split: json.splits option.splits)

lemma toggle_loop_twice:
  assumes "all_have_id h" and "boolean_favorites h"
  shows "\<exists>h1 h2. toggle_loop i h = Inr h1 \<and> toggle_loop i h1 = Inr h2
           \<and> map favorite_of h2 = map favorite_of h
           \<and> map (AList.delete ''favorite'') h2 = map (AList.delete ''favorite'') h"
  using assms
proof (induction h)
  case Nil
  then show ?case by simp
next
  case (Cons r rs)
  from Cons.prems obtain v where v: "id_of r = Some v"
    by (auto simp: all_have_id_def)
  from Cons.prems have b: "case favorite_of r of JBool b \<Rightarrow> True | _ \<Rightarrow> False"
    by (simp add: boolean_favorites_def)
  show ?case
  proof (cases "eq_int v i")
    case True
    with v have 1: "toggle_loop i (r # rs) = Inr (flip_favorite r # rs)"
      by (simp add: subscript_def id_of_def flip_favorite_def favorite_of_def)
    from v True flip_favorite_twice(3) [OF b]
    have 2: "toggle_loop i (flip_favorite r # rs) = Inr (flip_favorite (flip_favorite r) # rs)"
      by (simp add: subscript_def id_of_def flip_favorite_def favorite_of_def)
    from 1 2 flip_favorite_twice(1,2) [OF b] show ?thesis by simp
  next
    case False
    from Cons.prems have "all_have_id rs" "boolean_favorites rs"
      by (simp_all add: all_have_id_def boolean_favorites_def)
    from Cons.IH [OF this] obtain h1 h2 where
      "toggle_loop i rs = Inr h1" "toggle_loop i h1 = Inr h2"
      "map favorite_of h2 = map favorite_of rs"
      "map (AList.delete ''favorite'') h2 = map (AList.delete ''favorite'') rs"
      by blast
    with v False show ?thesis
      by (simp add: subscript_def id_of_def)
  qed
qed

text \<open>
  C6. In a store whose records all have an id and a boolean favorite flag (absent counts
  as \<open>False\<close>, as the code reads it), both toggles succeed and the second one restores
  the favorite value of every record; no other field changes. One toggle leaves the
  records as they are when no record has the id, and otherwise flips the flag of the
  first record that has it and changes nothing else.
\<close>

theorem toggle_favorite_involution:
  assumes "all_have_id (load_history fs)" and "boolean_favorites (load_history fs)"
  shows "\<exists>h1 h2. toggle_favorite i fs = Inr (Stored h1)
           \<and> toggle_favorite i (Stored h1) = Inr (Stored h2)
           \<and> map favorite_of h2 = map favorite_of (load_history fs)
           \<and> map (AList.delete ''favorite'') h2 = map (AList.delete ''favorite'') (load_history fs)
           \<and> (\<not> list_ex (has_id i) (load_history fs) \<longrightarrow> h1 = load_history fs)
           \<and> (\<forall>k<length (load_history fs).
                 has_id i (load_history fs ! k) \<and> (\<forall>j<k. \<not> has_id i (load_history fs ! j))
                 \<longrightarrow> h1 = (load_history fs)[k := flip_favorite (load_history fs ! k)])"
proof -
  let ?h = "load_history fs"
  from toggle_loop_twice [OF assms, of i] obtain h1 h2 where
    t: "toggle_loop i ?h = Inr h1" "toggle_loop i h1 = Inr h2"
      "map favorite_of h2 = map favorite_of ?h"
      "map (AList.delete ''favorite'') h2 = map (AList.delete ''favorite'') ?h"
    by blast
  have "toggle_favorite i fs = Inr (Stored h1)"
    using t(1) by (simp add: toggle_favorite_def)
  moreover have "toggle_favorite i (Stored h1) = Inr (Stored h2)"
    using t(2) by (simp add: toggle_favorite_def load_history_simps)
  moreover have "\<not> list_ex (has_id i) ?h \<longrightarrow> h1 = ?h"
    using toggle_loop_no_match [OF assms(1), of i] t(1) by auto
  moreover have "\<forall>k<length ?h. has_id i (?h ! k) \<and> (\<forall>j<k. \<not> has_id i (?h ! j))
                 \<longrightarrow> h1 = ?h[k := flip_favorite (?h ! k)]"
    using toggle_loop_first_match [OF assms(1), of _ i] t(1) by auto
  ultimately show ?thesis using t(3,4) by blast
qed

theorem toggle_favorite_involution_witness:
  "all_have_id (load_history (Stored [[(''id'', JInt 1), (''favorite'', JBool False)],
                                      [(''id'', JInt 2), (''favorite'', JBool True)]]))
   \<and> boolean_favorites (load_history (Stored [[(''id'', JInt 1), (''favorite'', JBool False)],
                                             [(''id'', JInt 2), (''favorite'', JBool True)]]))
   \<and> toggle_favorite 2 (Stored [[(''id'', JInt 1), (''favorite'', JBool False)],
                                [(''id'', JInt 2), (''favorite'', JBool True)]])
       = Inr (Stored [[(''id'', JInt 1), (''favorite'', JBool False)],
                      [(''id'', JInt 2), (''favorite'', JBool False)]])
   \<and> (\<exists>h1 h2. toggle_favorite 2 (Stored [[(''id'', JInt 1), (''favorite'', JBool False)],
                                [(''id'', JInt 2), (''favorite'', JBool True)]]) = Inr (Stored h1)
        \<and> toggle_favorite 2 (Stored h1) = Inr (Stored h2)
        \<and> map favorite_of h2 = [JBool False, JBool True])"
proof -
  let ?fs = "Stored [[(''id'', JInt 1), (''favorite'', JBool False)],
                     [(''id'', JInt 2), (''favorite'', JBool True)]]"
  have a: "all_have_id (load_history ?fs)"
    by (simp add: all_have_id_def id_of_def load_history_simps)
  have b: "boolean_favorites (load_history ?fs)"
    by (simp add: boolean_favorites_def favorite_of_def dict_get_def load_history_simps)
  have c: "toggle_favorite 2 ?fs = Inr (Stored [[(''id'', JInt 1), (''favorite'', JBool False)],
                      [(''id'', JInt 2), (''favorite'', JBool False)]])"
    by (simp add: toggle_favorite_def load_history_simps subscript_def dict_get_def)
  have d: "map favorite_of (load_history ?fs) = [JBool False, JBool True]"
    by (simp add: favorite_of_def dict_get_def load_history_simps)
  from toggle_favorite_involution [OF a b, of 2] obtain h1 h2 where
    "toggle_favorite 2 ?fs = Inr (Stored h1)" "toggle_favorite 2 (Stored h1) = Inr (Stored h2)"
    "map favorite_of h2 = map favorite_of (load_history ?fs)"
    by blast
  with d have "\<exists>h1 h2. toggle_favorite 2 ?fs = Inr (Stored h1)
        \<and> toggle_favorite 2 (Stored h1) = Inr (Stored h2)
        \<and> map favorite_of h2 = [JBool False, JBool True]"
    by auto
  with a b c show ?thesis by blast
qed

section \<open>Properties of search and export\<close>

lemma str_contains_sublist: "str_contains a b = sublist a b"
  by (induction b) (auto simp: sublist_Cons_right)

lemma field_contains_text:
  "text_field r k = Some s \<Longrightarrow>
   field_contains lower query r k = Inr (ci_contains lower query (text_field r k))"
  by (auto simp: field_contains_def text_field_def ci_contains_def str_contains_sublist
      split: json.splits)

lemma item_matches_eq:
  assumes "text_field r ''keyword'' \<noteq> None" "text_field r ''output'' \<noteq> None"
    "text_field r ''tags'' \<noteq> None"
  shows "item_matches lower query r = Inr (matches_query lower query r)"
proof -
  from assms obtain a b c where
    "text_field r ''keyword'' = Some a" "text_field r ''output'' = Some b"
    "text_field r ''tags'' = Some c"
    by auto
  then show ?thesis
    by (simp add: item_matches_def matches_query_def field_contains_text split: bool.splits)
qed

lemma search_loop_all:
  "text_fields_ok h \<Longrightarrow>
   search_loop lower query (Some ''All'') False results h
     = Inr (results @ filter (matches_query lower query) h)"
proof (induction h arbitrary: results)
  case Nil
  then show ?case by simp
next
  case (Cons r rs)
  from Cons.prems have m: "item_matches lower query r = Inr (matches_query lower query r)"
    by (intro item_matches_eq) (simp_all add: text_fields_ok_def)
  from Cons.prems have "text_fields_ok rs"
    by (simp add: text_fields_ok_def)
  with Cons.IH m show ?case
    by (simp add: type_excluded_def split: bool.splits)
qed

text \<open>
  C5. On a store whose \<open>keyword\<close>, \<open>output\<close> and \<open>tags\<close> fields are strings or
  absent, \<open>search_history\<close> with the type filter "All" and without the favorite filter
  returns exactly the records of which one of the three fields contains the query
  ignoring case: no other record, every such record, in the order of the store. The
  statement holds for every lower-casing function.
\<close>

theorem search_history_all:
  assumes "text_fields_ok (load_history fs)"
  shows "search_history lower query (Some ''All'') False fs
           = Inr (filter (matches_query lower query) (load_history fs))"
  using search_loop_all [OF assms, of lower query "[]"]
  by (simp add: search_history_def)

theorem search_history_all_witness:
  "text_fields_ok (load_history (Stored [[(''id'', JInt 1), (''keyword'', JStr ''Love''), (''output'', JStr ''a rose'')],
            [(''id'', JInt 2), (''keyword'', JStr ''sea''), (''output'', JStr ''waves''), (''tags'', JStr ''blue'')],
            [(''id'', JInt 3), (''keyword'', JStr ''sky''), (''output'', JStr ''All you need is LOVE''), (''tags'', JStr [])]]))
   \<and> search_history ascii_lower ''love'' (Some ''All'') False
        (Stored [[(''id'', JInt 1), (''keyword'', JStr ''Love''), (''output'', JStr ''a rose'')],
            [(''id'', JInt 2), (''keyword'', JStr ''sea''), (''output'', JStr ''waves''), (''tags'', JStr ''blue'')],
            [(''id'', JInt 3), (''keyword'', JStr ''sky''), (''output'', JStr ''All you need is LOVE''), (''tags'', JStr [])]])
      = Inr [[(''id'', JInt 1), (''keyword'', JStr ''Love''), (''output'', JStr ''a rose'')],
             [(''id'', JInt 3), (''keyword'', JStr ''sky''), (''output'', JStr ''All you need is LOVE''), (''tags'', JStr [])]]"
proof -
  let ?fs = "Stored [[(''id'', JInt 1), (''keyword'', JStr ''Love''), (''output'', JStr ''a rose'')],
            [(''id'', JInt 2), (''keyword'', JStr ''sea''), (''output'', JStr ''waves''), (''tags'', JStr ''blue'')],
            [(''id'', JInt 3), (''keyword'', JStr ''sky''), (''output'', JStr ''All you need is LOVE''), (''tags'', JStr [])]]"
  have h: "text_fields_ok (load_history ?fs)"
    by (simp add: text_fields_ok_def text_field_def dict_get_def load_history_simps)
  have "filter (matches_query ascii_lower ''love'') (load_history ?fs)
      = [[(''id'', JInt 1), (''keyword'', JStr ''Love''), (''output'', JStr ''a rose'')],
             [(''id'', JInt 3), (''keyword'', JStr ''sky''), (''output'', JStr ''All you need is LOVE''), (''tags'', JStr [])]]"
    by (simp add: matches_query_def ci_contains_def text_field_def dict_get_def load_history_simps
        ascii_lower_def sublist_Cons_right)
  with search_history_all [OF h, of ascii_lower "''love''"] h show ?thesis
    by (simp only:)
qed

lemma export_item_append:
  "export_item repr content item = content @ export_section repr item"
  by (simp add: export_item_def export_section_def Let_def)

lemma export_foldl:
  "foldl (export_item repr) content h = content @ concat (map (export_section repr) h)"
proof (induction h arbitrary: content)
  case Nil
  then show ?case by simp
next
  case (Cons r rs)
  have "foldl (export_item repr) content (r # rs)
          = foldl (export_item repr) (export_item repr content r) rs"
    by simp
  also have "\<dots> = export_item repr content r @ concat (map (export_section repr) rs)"
    by (rule Cons.IH)
  also have "export_item repr content r = content @ export_section repr r"
    by (rule export_item_append)
  finally show ?case
    by simp
qed

lemma export_section_shape:
  "\<exists>rest. export_section repr r =
      ''ID: '' @ py_str repr (dict_get r ''id'' (JStr ''N/A'')) @ nl
      @ ''Keyword: '' @ py_str repr (dict_get r ''keyword'' (JStr ''N/A'')) @ nl @ rest"
  by (simp add: export_section_def export_item_def Let_def)

lemma sublist_in_context: "sublist x (a @ x @ b)"
  by (auto simp: sublist_def)

lemma export_contains:
  assumes "r \<in> set h"
  shows "sublist (py_str repr (dict_get r ''id'' (JStr ''N/A'')))
           (content @ concat (map (export_section repr) h))"
    and "sublist (py_str repr (dict_get r ''keyword'' (JStr ''N/A'')))
           (content @ concat (map (export_section repr) h))"
proof -
  from assms obtain h1 h2 where h: "h = h1 @ r # h2"
    by (auto dest: split_list)
  obtain rest where s: "export_section repr r =
      ''ID: '' @ py_str repr (dict_get r ''id'' (JStr ''N/A'')) @ nl
      @ ''Keyword: '' @ py_str repr (dict_get r ''keyword'' (JStr ''N/A'')) @ nl @ rest"
    using export_section_shape by blast
  let ?pre = "content @ concat (map (export_section repr) h1)"
  let ?post = "concat (map (export_section repr) h2)"
  let ?i = "py_str repr (dict_get r ''id'' (JStr ''N/A''))"
  let ?k = "py_str repr (dict_get r ''keyword'' (JStr ''N/A''))"
  have "content @ concat (map (export_section repr) h)
          = (?pre @ ''ID: '') @ ?i @ (nl @ ''Keyword: '' @ ?k @ nl @ rest @ ?post)"
    by (simp add: h s)
  then show "sublist ?i (content @ concat (map (export_section repr) h))"
    by (simp only: sublist_in_context)
  have "content @ concat (map (export_section repr) h)
          = (?pre @ ''ID: '' @ ?i @ nl @ ''Keyword: '') @ ?k @ (nl @ rest @ ?post)"
    by (simp add: h s)
  then show "sublist ?k (content @ concat (map (export_section repr) h))"
    by (simp only: sublist_in_context)
qed

text \<open>
  C8. The exported text is the header followed by one section per record, in the order
  of the store. For every stored record it contains the text of the record's id and of
  its keyword, as the f-string formats them: the decimal digits of an integer id and the
  characters of a string keyword.
\<close>

theorem export_contains_id_and_keyword:
  "export_history_as_text repr fs
     = export_header @ concat (map (export_section repr) (load_history fs))
   \<and> (\<forall>r\<in>set (load_history fs).
         str_contains (py_str repr (dict_get r ''id'' (JStr ''N/A'')))
           (export_history_as_text repr fs)
       \<and> str_contains (py_str repr (dict_get r ''keyword'' (JStr ''N/A'')))
           (export_history_as_text repr fs)
       \<and> (\<forall>n. map_of r ''id'' = Some (JInt n)
              \<longrightarrow> str_contains (str_int n) (export_history_as_text repr fs))
       \<and> (\<forall>k. map_of r ''keyword'' = Some (JStr k)
              \<longrightarrow> str_contains k (export_history_as_text repr fs)))"
proof -
  have e: "export_history_as_text repr fs
     = export_header @ concat (map (export_section repr) (load_history fs))"
    by (simp add: export_history_as_text_def export_foldl)
  have "str_contains (py_str repr (dict_get r ''id'' (JStr ''N/A'')))
           (export_history_as_text repr fs)
       \<and> str_contains (py_str repr (dict_get r ''keyword'' (JStr ''N/A'')))
           (export_history_as_text repr fs)
       \<and> (\<forall>n. map_of r ''id'' = Some (JInt n)
              \<longrightarrow> str_contains (str_int n) (export_history_as_text repr fs))
       \<and> (\<forall>k. map_of r ''keyword'' = Some (JStr k)
              \<longrightarrow> str_contains k (export_history_as_text repr fs))"
    if r: "r \<in> set (load_history fs)" for r
  proof -
    have i: "str_contains (py_str repr (dict_get r ''id'' (JStr ''N/A'')))
           (export_history_as_text repr fs)"
      unfolding e str_contains_sublist by (rule export_contains(1) [OF r])
    have k: "str_contains (py_str repr (dict_get r ''keyword'' (JStr ''N/A'')))
           (export_history_as_text repr fs)"
      unfolding e str_contains_sublist by (rule export_contains(2) [OF r])
    have "str_contains (str_int n) (export_history_as_text repr fs)"
      if "map_of r ''id'' = Some (JInt n)" for n
      using i that by (simp add: dict_get_def)
    moreover have "str_contains s (export_history_as_text repr fs)"
      if "map_of r ''keyword'' = Some (JStr s)" for s
      using k that by (simp add: dict_get_def)
    ultimately show ?thesis using i k by blast
  qed
  with e show ?thesis by blast
qed

theorem export_contains_id_and_keyword_witness:
  "[(''id'', JInt 12), (''keyword'', JStr ''sea'')]
     \<in> set (load_history (Stored [[(''id'', JInt 12), (''keyword'', JStr ''sea'')]]))
   \<and> str_contains ''12''
        (export_history_as_text (\<lambda>v. []) (Stored [[(''id'', JInt 12), (''keyword'', JStr ''sea'')]]))
   \<and> str_contains ''sea''
        (export_history_as_text (\<lambda>v. []) (Stored [[(''id'', JInt 12), (''keyword'', JStr ''sea'')]]))"
proof -
  let ?r = "[(''id'', JInt 12), (''keyword'', JStr ''sea'')]"
  let ?fs = "Stored [?r]"
  let ?out = "export_history_as_text (\<lambda>v. []) ?fs"
  have m: "?r \<in> set (load_history ?fs)"
    by (simp add: load_history_simps)
  from export_contains_id_and_keyword [of "\<lambda>v. []" ?fs]
  have "\<forall>r\<in>set (load_history ?fs).
         str_contains (py_str (\<lambda>v. []) (dict_get r ''id'' (JStr ''N/A''))) ?out
       \<and> str_contains (py_str (\<lambda>v. []) (dict_get r ''keyword'' (JStr ''N/A''))) ?out
       \<and> (\<forall>n. map_of r ''id'' = Some (JInt n) \<longrightarrow> str_contains (str_int n) ?out)
       \<and> (\<forall>k. map_of r ''keyword'' = Some (JStr k) \<longrightarrow> str_contains k ?out)"
    by (rule conjunct2)
  from bspec [OF this m]
  have "str_contains (py_str (\<lambda>v. []) (dict_get ?r ''id'' (JStr ''N/A''))) ?out"
    and "str_contains (py_str (\<lambda>v. []) (dict_get ?r ''keyword'' (JStr ''N/A''))) ?out"
    by (rule conjunct1, rule conjunct1 [OF conjunct2])
  moreover have "py_str (\<lambda>v. []) (dict_get ?r ''id'' (JStr ''N/A'')) = ''12''"
    by (simp add: dict_get_def str_int_def str_nat.simps)
  moreover have "py_str (\<lambda>v. []) (dict_get ?r ''keyword'' (JStr ''N/A'')) = ''sea''"
    by (simp add: dict_get_def)
  ultimately have "str_contains ''12'' ?out" and "str_contains ''sea'' ?out"
    by (simp_all only:)
  with m show ?thesis by (intro conjI)
qed

section \<open>Properties of the generation client\<close>

lemma generate_text_gemini_answer:
  assumes "gemini_answer ext cfg prompt provider max_tokens temperature = Some resp"
  shows "generate_text ext cfg prompt provider max_tokens temperature =
     (if \<not> resp_ok resp
      then Inl (RuntimeError (''Gemini generation failed: '' @ ''Gemini API error (''
                  @ str_int (resp_status_code resp) @ ''): '' @ error_body ext resp))
      else case resp_json resp of
             Inl m \<Rightarrow> Inl (RuntimeError (''Gemini generation failed: '' @ m))
           | Inr data \<Rightarrow>
               (case gemini_extract data of
                  Inl m \<Rightarrow> Inl (RuntimeError (''Gemini generation failed: '' @ m))
                | Inr s \<Rightarrow> Inr s))"
  using assms
  by (auto simp: gemini_answer_def generate_text_def generate_with_gemini_def gemini_attempt_def
      key_given_def error_body_def Let_def
      split: if_splits option.splits post_outcome.splits sum.splits)

lemma gemini_extract_no_parts:
  "candidate_parts data = Some [] \<Longrightarrow> gemini_extract data = Inr ''No response generated''"
  by (auto simp: candidate_parts_def gemini_extract_def
      split: json.splits list.splits if_splits)

lemma gemini_extract_first_part:
  "candidate_parts data = Some (JObj part # parts) \<Longrightarrow>
   gemini_extract data =
     (case map_of part ''text'' of
        None \<Rightarrow> Inr []
      | Some t \<Rightarrow> str_strip t)"
  by (auto simp: candidate_parts_def gemini_extract_def dict_get_def strip_def
      split: json.splits list.splits if_splits option.splits)

lemma lower_gemini: "ascii_lower ''Gemini'' = ''gemini''"
  by (simp add: ascii_lower_def dict_get_def)

text \<open>
  C9, as the claim states it, fails: the response below is well formed and its only
  part holds no text (it holds inline data), and \<open>generate_text\<close> returns the empty
  string, not the string "No response generated".
\<close>

theorem generate_text_counterexample:
  "generate_text
     (canned_externals (PostReturns
        \<lparr>resp_ok = True, resp_status_code = 200,
         resp_json = Inr (JObj [(''candidates'',
           JArr [JObj [(''content'',
             JObj [(''parts'', JArr [JObj [(''inlineData'', JStr ''AAAA'')]])])]])]),
         resp_text = []\<rparr>))
     example_config ''a quote about the sea'' ''Gemini'' 300 ''0.7''
   = Inr []"
  by (simp add: generate_text_def generate_with_gemini_def gemini_attempt_def gemini_extract_def
      canned_externals_def example_config_def key_given_def lower_gemini dict_get_def strip_def)

text \<open>
  C9, amended. \<open>generate_text\<close> raises \<^verbatim>\<open>RuntimeError\<close> when the key of the selected
  provider is absent or empty, and, with the Gemini provider, when the HTTP call returns
  a response that is not ok; the message then holds the status code and the body. When
  the response is ok and has no candidate, or its first candidate has no content part,
  the result is the string "No response generated"; when the first part has no text,
  the result is the empty string.
\<close>

theorem generate_text_errors_and_sentinel:
  "(str_lower ext provider = ''gemini'' \<and> \<not> key_given (GEMINI_API_KEY cfg)
      \<longrightarrow> generate_text ext cfg prompt provider max_tokens temperature
            = Inl (RuntimeError ''GEMINI_API_KEY not found in environment. Set it in .env.''))
   \<and> (str_lower ext provider = ''openai'' \<and> \<not> key_given (OPENAI_API_KEY cfg)
      \<longrightarrow> generate_text ext cfg prompt provider max_tokens temperature
            = Inl (RuntimeError ''OPENAI_API_KEY not found in environment. Set it in .env.''))
   \<and> (\<forall>resp. gemini_answer ext cfg prompt provider max_tokens temperature = Some resp
          \<and> \<not> resp_ok resp
      \<longrightarrow> generate_text ext cfg prompt provider max_tokens temperature
            = Inl (RuntimeError (''Gemini generation failed: Gemini API error (''
                     @ str_int (resp_status_code resp) @ ''): '' @ error_body ext resp)))
   \<and> (\<forall>resp data. gemini_answer ext cfg prompt provider max_tokens temperature = Some resp
          \<and> resp_ok resp \<and> resp_json resp = Inr data \<and> candidate_parts data = Some []
      \<longrightarrow> generate_text ext cfg prompt provider max_tokens temperature
            = Inr ''No response generated'')
   \<and> (\<forall>resp data part parts.
          gemini_answer ext cfg prompt provider max_tokens temperature = Some resp
          \<and> resp_ok resp \<and> resp_json resp = Inr data
          \<and> candidate_parts data = Some (JObj part # parts) \<and> map_of part ''text'' = None
      \<longrightarrow> generate_text ext cfg prompt provider max_tokens temperature = Inr [])"
proof (intro conjI allI impI)
  assume "str_lower ext provider = ''gemini'' \<and> \<not> key_given (GEMINI_API_KEY cfg)"
  then show "generate_text ext cfg prompt provider max_tokens temperature
            = Inl (RuntimeError ''GEMINI_API_KEY not found in environment. Set it in .env.'')"
    by (simp add: generate_text_def)
next
  assume "str_lower ext provider = ''openai'' \<and> \<not> key_given (OPENAI_API_KEY cfg)"
  then show "generate_text ext cfg prompt provider max_tokens temperature
            = Inl (RuntimeError ''OPENAI_API_KEY not found in environment. Set it in .env.'')"
    by (simp add: generate_text_def)
next
  fix resp
  assume "gemini_answer ext cfg prompt provider max_tokens temperature = Some resp
          \<and> \<not> resp_ok resp"
  then show "generate_text ext cfg prompt provider max_tokens temperature
            = Inl (RuntimeError (''Gemini generation failed: Gemini API error (''
                     @ str_int (resp_status_code resp) @ ''): '' @ error_body ext resp))"
    by (simp add: generate_text_gemini_answer)
next
  fix resp data
  assume "gemini_answer ext cfg prompt provider max_tokens temperature = Some resp
          \<and> resp_ok resp \<and> resp_json resp = Inr data \<and> candidate_parts data = Some []"
  then show "generate_text ext cfg prompt provider max_tokens temperature
            = Inr ''No response generated''"
    by (simp add: generate_text_gemini_answer gemini_extract_no_parts)
next
  fix resp data part parts
  assume "gemini_answer ext cfg prompt provider max_tokens temperature = Some resp
          \<and> resp_ok resp \<and> resp_json resp = Inr data
          \<and> candidate_parts data = Some (JObj part # parts) \<and> map_of part ''text'' = None"
  then show "generate_text ext cfg prompt provider max_tokens temperature = Inr []"
    by (simp add: generate_text_gemini_answer gemini_extract_first_part)
qed

theorem generate_text_errors_and_sentinel_witness:
  "gemini_answer
     (canned_externals (PostReturns
        \<lparr>resp_ok = False, resp_status_code = 429, resp_json = Inl ''Expecting value'',
         resp_text = ''quota exceeded''\<rparr>))
     example_config ''a quote about the sea'' ''Gemini'' 300 ''0.7''
   = Some \<lparr>resp_ok = False, resp_status_code = 429, resp_json = Inl ''Expecting value'',
           resp_text = ''quota exceeded''\<rparr>
   \<and> \<not> resp_ok \<lparr>resp_ok = False, resp_status_code = 429, resp_json = Inl ''Expecting value'',
                 resp_text = ''quota exceeded''\<rparr>
   \<and> generate_text
     (canned_externals (PostReturns
        \<lparr>resp_ok = False, resp_status_code = 429, resp_json = Inl ''Expecting value'',
         resp_text = ''quota exceeded''\<rparr>))
     example_config ''a quote about the sea'' ''Gemini'' 300 ''0.7''
   = Inl (RuntimeError ''Gemini generation failed: Gemini API error (429): quota exceeded'')"
proof -
  let ?resp = "\<lparr>resp_ok = False, resp_status_code = 429, resp_json = Inl ''Expecting value'',
                 resp_text = ''quota exceeded''\<rparr>"
  let ?ext = "canned_externals (PostReturns ?resp)"
  have a: "gemini_answer ?ext example_config ''a quote about the sea'' ''Gemini'' 300 ''0.7''
             = Some ?resp"
    by (simp add: gemini_answer_def canned_externals_def example_config_def lower_gemini)
  have b: "\<not> resp_ok ?resp"
    by simp
  have c: "''Gemini generation failed: Gemini API error ('' @ str_int (resp_status_code ?resp)
             @ ''): '' @ error_body ?ext ?resp
           = ''Gemini generation failed: Gemini API error (429): quota exceeded''"
    by (simp add: error_body_def str_int_def str_nat.simps)
  from generate_text_errors_and_sentinel
         [of ?ext "''Gemini''" example_config "''a quote about the sea''" 300 "''0.7''"]
  have "\<forall>resp. gemini_answer ?ext example_config ''a quote about the sea'' ''Gemini'' 300 ''0.7''
                  = Some resp \<and> \<not> resp_ok resp
      \<longrightarrow> generate_text ?ext example_config ''a quote about the sea'' ''Gemini'' 300 ''0.7''
            = Inl (RuntimeError (''Gemini generation failed: Gemini API error (''
                     @ str_int (resp_status_code resp) @ ''): '' @ error_body ?ext resp))"
    by (rule conjunct1 [OF conjunct2 [OF conjunct2]])
  then have "gemini_answer ?ext example_config ''a quote about the sea'' ''Gemini'' 300 ''0.7''
                  = Some ?resp \<and> \<not> resp_ok ?resp
      \<longrightarrow> generate_text ?ext example_config ''a quote about the sea'' ''Gemini'' 300 ''0.7''
            = Inl (RuntimeError (''Gemini generation failed: Gemini API error (''
                     @ str_int (resp_status_code ?resp) @ ''): '' @ error_body ?ext ?resp))"
    by (rule spec)
  moreover from a b have "gemini_answer ?ext example_config ''a quote about the sea'' ''Gemini'' 300 ''0.7''
                  = Some ?resp \<and> \<not> resp_ok ?resp"
    by (rule conjI)
  ultimately have "generate_text ?ext example_config ''a quote about the sea'' ''Gemini'' 300 ''0.7''
            = Inl (RuntimeError (''Gemini generation failed: Gemini API error (''
                     @ str_int (resp_status_code ?resp) @ ''): '' @ error_body ?ext ?resp))"
    by (rule mp)
  then have "generate_text ?ext example_config ''a quote about the sea'' ''Gemini'' 300 ''0.7''
            = Inl (RuntimeError ''Gemini generation failed: Gemini API error (429): quota exceeded'')"
    by (simp only: c)
  with a b show ?thesis by (intro conjI)
qed

section \<open>Properties of the prompt builder\<close>

subsection \<open>Stripping, separators and digits\<close>

lemma sublist_trans': "sublist xs ys \<Longrightarrow> sublist ys zs \<Longrightarrow> sublist xs zs"
  by (metis sublist_order.order.trans)

lemma strip_sublist: "sublist (strip s) s"
proof -
  have "suffix (dropWhile is_space (rev (dropWhile is_space s))) (rev (dropWhile is_space s))"
    by (rule suffix_dropWhile)
  then have "prefix (strip s) (dropWhile is_space s)"
    by (simp add: strip_def suffix_to_prefix)
  then have "sublist (strip s) (dropWhile is_space s)"
    by (rule prefix_imp_sublist)
  moreover have "sublist (dropWhile is_space s) s"
    by (rule suffix_imp_sublist) (rule suffix_dropWhile)
  ultimately show ?thesis
    by (rule sublist_trans')
qed

lemma strip_ends:
  assumes "\<not> is_space c" and "\<not> is_space d"
  shows "strip (c # xs @ [d, CHR '' '']) = c # xs @ [d]"
proof -
  have sp: "is_space (CHR '' '')"
    by (simp add: is_space_def)
  from assms(1) have "dropWhile is_space (c # xs @ [d, CHR '' '']) = c # xs @ [d, CHR '' '']"
    by simp
  moreover have "rev (c # xs @ [d, CHR '' '']) = CHR '' '' # d # rev xs @ [c]"
    by simp
  moreover from assms(2) sp
  have "dropWhile is_space (CHR '' '' # d # rev xs @ [c]) = d # rev xs @ [c]"
    by simp
  ultimately show ?thesis
    by (simp add: strip_def)
qed

lemma sublist_separator:
  assumes "c \<notin> set p"
  shows "sublist p (xs @ c # ys) \<longleftrightarrow> sublist p xs \<or> sublist p ys"
proof
  assume "sublist p (xs @ c # ys)"
  then consider "sublist p xs" | "sublist p (c # ys)"
    | p1 p2 where "p = p1 @ p2" "suffix p1 xs" "prefix p2 (c # ys)"
    by (auto simp: sublist_append)
  then show "sublist p xs \<or> sublist p ys"
  proof cases
    case 1
    then show ?thesis by simp
  next
    case 2
    with assms show ?thesis
      by (cases p) (auto simp: sublist_Cons_right prefix_Cons)
  next
    case 3
    with assms have "p2 = []"
      by (cases p2) (auto simp: prefix_Cons)
    with 3 show ?thesis by auto
  qed
next
  assume "sublist p xs \<or> sublist p ys"
  then show "sublist p (xs @ c # ys)"
  proof
    assume "sublist p xs"
    then show ?thesis by (auto simp: sublist_append)
  next
    assume "sublist p ys"
    then have "sublist p (c # ys)" by (simp add: sublist_Cons_right)
    then show ?thesis by (auto simp: sublist_append)
  qed
qed

lemma digit_in_digits: "k < 10 \<Longrightarrow> ''0123456789'' ! k \<in> set ''0123456789''"
  by (intro nth_mem) simp

lemma str_nat_digits:
  assumes "c \<notin> set ''0123456789''"
  shows "c \<notin> set (str_nat n)"
proof (induction n rule: str_nat.induct)
  case (1 n)
  show ?case
  proof (cases "n < 10")
    case True
    then have "str_nat n = [''0123456789'' ! n]"
      by (subst str_nat.simps) simp
    moreover from True have "''0123456789'' ! n \<in> set ''0123456789''"
      by (rule digit_in_digits)
    ultimately show ?thesis using assms by auto
  next
    case False
    then have "str_nat n = str_nat (n div 10) @ [''0123456789'' ! (n mod 10)]"
      by (subst str_nat.simps) simp
    moreover have "''0123456789'' ! (n mod 10) \<in> set ''0123456789''"
      by (rule digit_in_digits) simp
    moreover from False have "c \<notin> set (str_nat (n div 10))"
      by (rule "1.IH")
    ultimately show ?thesis using assms by auto
  qed
qed

lemma str_int_digits:
  assumes "c \<notin> set ''-0123456789''"
  shows "c \<notin> set (str_int i)"
proof -
  from assms have d: "c \<notin> set ''0123456789''" and m: "c \<noteq> CHR ''-''"
    by simp_all
  show ?thesis
  proof (cases "i < 0")
    case True
    then have "str_int i = CHR ''-'' # str_nat (nat (- i))"
      by (simp add: str_int_def)
    with m str_nat_digits [OF d] show ?thesis by simp
  next
    case False
    then have "str_int i = str_nat (nat i)"
      by (simp add: str_int_def)
    with str_nat_digits [OF d] show ?thesis by simp
  qed
qed

lemma dict_get_table:
  assumes "P d" and "list_all (\<lambda>kv. P (snd kv)) tbl"
  shows "P (dict_get tbl k d)"
  using assms(2)
proof (induction tbl)
  case Nil
  with assms(1) show ?case by (simp add: dict_get_def)
next
  case (Cons kv tbl)
  then show ?case
    by (cases kv) (auto simp: dict_get_def)
qed

lemma spaced_without_clause:
  assumes "CHR '' '' \<notin> set p" and "CHR ''.'' \<notin> set p"
    and "spaced_without p s" and "\<not> sublist p v"
  shows "spaced_without p (s @ v @ ''. '')"
proof -
  from assms(3) have ne: "p \<noteq> []"
    by (auto simp: spaced_without_def)
  with assms(1) have sp: "\<not> sublist p '' ''"
    by (cases p) (auto simp: sublist_Cons_right prefix_Cons)
  from assms(2,4) sp have v: "\<not> sublist p (v @ ''. '')"
    using sublist_separator [of "CHR ''.''" p v "'' ''"] by simp
  have "\<not> sublist p (s @ v @ ''. '')"
  proof (cases "s = []")
    case True
    with v show ?thesis by simp
  next
    case False
    with assms(3) obtain s' where s': "s = s' @ '' ''"
      by (metis append_butlast_last_id spaced_without_def)
    from assms(3) have "\<not> sublist p s'"
      unfolding s' spaced_without_def
      by (metis sublist_order.order.trans prefix_imp_sublist prefixI)
    with v assms(1) show ?thesis
      using sublist_separator [of "CHR '' ''" p s' "v @ ''. ''"] by (simp add: s')
  qed
  then show ?thesis
    by (simp add: spaced_without_def)
qed

lemma spaced_without_if:
  assumes "CHR '' '' \<notin> set p" and "CHR ''.'' \<notin> set p"
    and "spaced_without p s" and "\<not> sublist p v"
  shows "spaced_without p (if g then s @ v @ ''. '' else s)"
  using assms by (simp add: spaced_without_clause)

subsection \<open>Where the word "rhyme" can occur\<close>

lemma rhyme_separators:
  "CHR '' '' \<notin> set ''rhyme''" "CHR ''.'' \<notin> set ''rhyme''"
  "CHR 0x27 \<notin> set ''rhyme''" "CHR ''-'' \<notin> set ''rhyme''"
  by simp_all

lemma str_int_no_rhyme: "\<not> sublist ''rhyme'' (str_int n)"
proof
  assume "sublist ''rhyme'' (str_int n)"
  then have "set ''rhyme'' \<subseteq> set (str_int n)"
    by (rule set_mono_sublist)
  then have "CHR ''r'' \<in> set (str_int n)"
    by simp
  moreover have "CHR ''r'' \<notin> set (str_int n)"
    by (rule str_int_digits) simp
  ultimately show False by simp
qed

lemma poem_instruction_no_rhyme:
  "\<not> sublist ''rhyme'' (''Create a '' @ str_int n @ ''-word poem (3-8 lines preferred)'')"
proof -
  have a: "\<not> sublist ''rhyme'' ''Create a''"
    by (simp add: sublist_Cons_right)
  have b: "\<not> sublist ''rhyme'' ''word poem (3-8 lines preferred)''"
    by (simp add: sublist_Cons_right)
  from str_int_no_rhyme b have "\<not> sublist ''rhyme'' (str_int n @ CHR ''-'' # ''word poem (3-8 lines preferred)'')"
    by (simp only: sublist_separator [OF rhyme_separators(4)] simp_thms)
  with a have "\<not> sublist ''rhyme''
      (''Create a'' @ CHR '' '' # (str_int n @ CHR ''-'' # ''word poem (3-8 lines preferred)''))"
    by (simp only: sublist_separator [OF rhyme_separators(1)] simp_thms)
  then show ?thesis by simp
qed

lemma content_instructions_no_rhyme:
  "\<not> sublist ''rhyme'' (dict_get (content_instructions n) content_type ''Write content'')"
proof (rule dict_get_table)
  show "\<not> sublist ''rhyme'' ''Write content''"
    by (simp add: sublist_Cons_right)
  have 1: "\<not> sublist ''rhyme'' ''Write a memorable, inspiring quote''"
    by (simp add: sublist_Cons_right)
  have 2: "\<not> sublist ''rhyme'' ''Write a traditional 3-line Haiku (5-7-5 syllable pattern)''"
    by (simp add: sublist_Cons_right)
  have 3: "\<not> sublist ''rhyme'' ''Create an uplifting motivational saying''"
    by (simp add: sublist_Cons_right)
  have 4: "\<not> sublist ''rhyme'' ''Write a catchy social media caption (under 280 characters)''"
    by (simp add: sublist_Cons_right)
  have 5: "\<not> sublist ''rhyme'' ''Write song lyrics with rhythm and flow''"
    by (simp add: sublist_Cons_right)
  have 6: "\<not> sublist ''rhyme'' ''Write an engaging story opening paragraph''"
    by (simp add: sublist_Cons_right)
  show "list_all (\<lambda>kv. \<not> sublist ''rhyme'' (snd kv)) (content_instructions n)"
    unfolding content_instructions_def
    by (simp only: list.pred_inject snd_conv 1 2 3 4 5 6 poem_instruction_no_rhyme simp_thms)
qed

lemma language_map_no_rhyme: "\<not> sublist ''rhyme'' (dict_get language_map language [])"
  by (rule dict_get_table) (simp_all add: language_map_def sublist_Cons_right)

lemma tone_map_no_rhyme: "\<not> sublist ''rhyme'' (dict_get tone_map tone [])"
  by (rule dict_get_table) (simp_all add: tone_map_def sublist_Cons_right)

lemma audience_map_no_rhyme: "\<not> sublist ''rhyme'' (dict_get audience_map audience [])"
  by (rule dict_get_table) (simp_all add: audience_map_def sublist_Cons_right)

lemma rhyme_map_has_rhyme: "list_all (\<lambda>kv. sublist ''rhyme'' (snd kv)) rhyme_map"
  by (simp add: rhyme_map_def sublist_Cons_right)

lemma first_line_no_rhyme:
  assumes "\<not> sublist ''rhyme'' keyword"
  shows "spaced_without ''rhyme''
           (dict_get (content_instructions n) content_type ''Write content''
              @ '' about '' @ quote @ keyword @ quote @ ''. '')"
proof -
  let ?x = "dict_get (content_instructions n) content_type ''Write content''"
  have about: "\<not> sublist ''rhyme'' ''about ''"
    by (simp add: sublist_Cons_right)
  have dot: "\<not> sublist ''rhyme'' ''. ''"
    by (simp add: sublist_Cons_right)
  from content_instructions_no_rhyme [of n content_type] about
  have "\<not> sublist ''rhyme'' (?x @ CHR '' '' # ''about '')"
    by (simp only: sublist_separator [OF rhyme_separators(1)] simp_thms)
  moreover from assms dot have "\<not> sublist ''rhyme'' (keyword @ CHR 0x27 # ''. '')"
    by (simp only: sublist_separator [OF rhyme_separators(3)] simp_thms)
  ultimately have "\<not> sublist ''rhyme''
      ((?x @ CHR '' '' # ''about '') @ CHR 0x27 # (keyword @ CHR 0x27 # ''. ''))"
    by (simp only: sublist_separator [OF rhyme_separators(3)] simp_thms)
  then show ?thesis
    by (simp add: spaced_without_def quote_def)
qed

lemma prompt_without_rhyme_clause:
  assumes "\<not> (content_type = ''Poem'' \<and> rhyme_scheme \<noteq> ''Free Verse'')"
    and "\<not> sublist ''rhyme'' keyword"
  shows "\<not> sublist ''rhyme''
           (build_prompt keyword content_type language tone audience rhyme_scheme length_words)"
proof -
  define p0 where "p0 = dict_get (content_instructions length_words) content_type ''Write content''
                          @ '' about '' @ quote @ keyword @ quote @ ''. ''"
  define p1 where "p1 = (if language \<noteq> ''English''
                         then p0 @ dict_get language_map language [] @ ''. '' else p0)"
  define p2 where "p2 = (if tone \<noteq> ''Inspirational''
                         then p1 @ dict_get tone_map tone [] @ ''. '' else p1)"
  define p3 where "p3 = (if audience \<noteq> ''General''
                         then p2 @ dict_get audience_map audience [] @ ''. '' else p2)"
  have 0: "spaced_without ''rhyme'' p0"
    unfolding p0_def using assms(2) by (rule first_line_no_rhyme)
  have 1: "spaced_without ''rhyme'' p1"
    unfolding p1_def
    by (rule spaced_without_if
          [OF rhyme_separators(1) rhyme_separators(2) 0 language_map_no_rhyme])
  have 2: "spaced_without ''rhyme'' p2"
    unfolding p2_def
    by (rule spaced_without_if
          [OF rhyme_separators(1) rhyme_separators(2) 1 tone_map_no_rhyme])
  have 3: "spaced_without ''rhyme'' p3"
    unfolding p3_def
    by (rule spaced_without_if
          [OF rhyme_separators(1) rhyme_separators(2) 2 audience_map_no_rhyme])
  from assms(1) have
    "prompt_unstripped keyword content_type language tone audience rhyme_scheme length_words = p3"
    by (simp only: prompt_unstripped_def Let_def p3_def p2_def p1_def p0_def if_False)
  with 3 have "\<not> sublist ''rhyme''
      (prompt_unstripped keyword content_type language tone audience rhyme_scheme length_words)"
    by (simp add: spaced_without_def)
  with strip_sublist show ?thesis
    unfolding build_prompt_def by (metis sublist_trans')
qed

lemma poem_prompt_ends_with_clause:
  assumes "rhyme_scheme \<noteq> ''Free Verse''"
  shows "\<exists>body. build_prompt keyword ''Poem'' language tone audience rhyme_scheme length_words
                  = body @ dict_get rhyme_map rhyme_scheme [] @ ''.''"
proof -
  define p0 where "p0 = dict_get (content_instructions length_words) ''Poem'' ''Write content''
                          @ '' about '' @ quote @ keyword @ quote @ ''. ''"
  define p1 where "p1 = (if language \<noteq> ''English''
                         then p0 @ dict_get language_map language [] @ ''. '' else p0)"
  define p2 where "p2 = (if tone \<noteq> ''Inspirational''
                         then p1 @ dict_get tone_map tone [] @ ''. '' else p1)"
  define p3 where "p3 = (if audience \<noteq> ''General''
                         then p2 @ dict_get audience_map audience [] @ ''. '' else p2)"
  have "dict_get (content_instructions length_words) ''Poem'' ''Write content''
          = ''Create a '' @ str_int length_words @ ''-word poem (3-8 lines preferred)''"
    by (simp add: content_instructions_def dict_get_def)
  then have "\<exists>t. p0 = CHR ''C'' # t"
    by (simp add: p0_def)
  then have "\<exists>t. p1 = CHR ''C'' # t"
    by (auto simp: p1_def)
  then have "\<exists>t. p2 = CHR ''C'' # t"
    by (auto simp: p2_def)
  then have "\<exists>t. p3 = CHR ''C'' # t"
    by (auto simp: p3_def)
  then obtain t where t: "p3 = CHR ''C'' # t" ..
  from assms have
    "prompt_unstripped keyword ''Poem'' language tone audience rhyme_scheme length_words
       = p3 @ dict_get rhyme_map rhyme_scheme [] @ ''. ''"
    by (simp only: prompt_unstripped_def Let_def p3_def p2_def p1_def p0_def simp_thms if_True)
  also have "\<dots> = CHR ''C'' # (t @ dict_get rhyme_map rhyme_scheme []) @ [CHR ''.'', CHR '' '']"
    by (simp add: t)
  finally have pu:
    "prompt_unstripped keyword ''Poem'' language tone audience rhyme_scheme length_words
       = CHR ''C'' # (t @ dict_get rhyme_map rhyme_scheme []) @ [CHR ''.'', CHR '' '']" .
  have st: "strip (CHR ''C'' # (t @ dict_get rhyme_map rhyme_scheme []) @ [CHR ''.'', CHR '' ''])
              = CHR ''C'' # (t @ dict_get rhyme_map rhyme_scheme []) @ [CHR ''.'']"
    by (rule strip_ends) (simp_all add: is_space_def)
  have "build_prompt keyword ''Poem'' language tone audience rhyme_scheme length_words
       = CHR ''C'' # (t @ dict_get rhyme_map rhyme_scheme []) @ [CHR ''.'']"
    by (simp only: build_prompt_def pu st)
  then have "build_prompt keyword ''Poem'' language tone audience rhyme_scheme length_words
       = (CHR ''C'' # t) @ dict_get rhyme_map rhyme_scheme [] @ ''.''"
    by simp
  then show ?thesis
    by (rule exI [where x = "CHR ''C'' # t"])
qed

lemma unused_rhyme_scheme:
  assumes "\<not> (content_type = ''Poem'' \<and> rhyme_scheme \<noteq> ''Free Verse'')"
  shows "build_prompt keyword content_type language tone audience rhyme_scheme length_words
           = build_prompt keyword content_type language tone audience ''Free Verse'' length_words"
proof -
  from assms have
    "prompt_unstripped keyword content_type language tone audience rhyme_scheme length_words
       = prompt_unstripped keyword content_type language tone audience ''Free Verse''
           length_words"
    by (simp only: prompt_unstripped_def simp_thms if_False)
  then show ?thesis
    by (simp only: build_prompt_def)
qed

text \<open>
  C7, as the claim states it, fails: the keyword is copied into the prompt, so a keyword
  that holds the text of a rhyme clause puts that text into the prompt of a poem in free
  verse.
\<close>

theorem build_prompt_counterexample:
  "build_prompt ''Use ABAB rhyme scheme'' ''Poem'' ''English'' ''Inspirational'' ''General''
     ''Free Verse'' 12
     = ''Create a 12-word poem (3-8 lines preferred) about '' @ quote
         @ ''Use ABAB rhyme scheme'' @ quote @ ''.''
   \<and> str_contains ''Use ABAB rhyme scheme''
        (build_prompt ''Use ABAB rhyme scheme'' ''Poem'' ''English'' ''Inspirational''
           ''General'' ''Free Verse'' 12)"
proof -
  have e: "build_prompt ''Use ABAB rhyme scheme'' ''Poem'' ''English'' ''Inspirational''
             ''General'' ''Free Verse'' 12
     = ''Create a 12-word poem (3-8 lines preferred) about '' @ quote
         @ ''Use ABAB rhyme scheme'' @ quote @ ''.''"
    by (simp add: build_prompt_def prompt_unstripped_def content_instructions_def dict_get_def
        str_int_def str_nat.simps quote_def strip_def is_space_def)
  have "sublist ''Use ABAB rhyme scheme''
          ((''Create a 12-word poem (3-8 lines preferred) about '' @ quote)
             @ ''Use ABAB rhyme scheme'' @ (quote @ ''.''))"
    by (rule sublist_appendI)
  then have "str_contains ''Use ABAB rhyme scheme''
          (''Create a 12-word poem (3-8 lines preferred) about '' @ quote
             @ ''Use ABAB rhyme scheme'' @ quote @ ''.'')"
    by (simp only: str_contains_sublist append_assoc)
  with e show ?thesis
    by (simp only: simp_thms)
qed

text \<open>
  C7, amended. For a poem with a rhyme scheme other than "Free Verse" the prompt ends
  with the entry of \<open>rhyme_map\<close> for the scheme (empty for an unknown scheme) and a full
  stop; with the scheme "ABAB" it contains the ABAB clause. For every other content type
  and for "Free Verse" the rhyme scheme has no influence on the prompt, and the prompt
  contains none of the clauses of \<open>rhyme_map\<close> unless the keyword contains the word
  "rhyme".
\<close>

theorem build_prompt_rhyme_clause:
  "(content_type = ''Poem'' \<and> rhyme_scheme \<noteq> ''Free Verse''
      \<longrightarrow> suffix (dict_get rhyme_map rhyme_scheme [] @ ''.'')
            (build_prompt keyword content_type language tone audience rhyme_scheme
               length_words))
   \<and> str_contains ''Use ABAB rhyme scheme''
        (build_prompt keyword ''Poem'' language tone audience ''ABAB'' length_words)
   \<and> (\<not> (content_type = ''Poem'' \<and> rhyme_scheme \<noteq> ''Free Verse'')
      \<longrightarrow> build_prompt keyword content_type language tone audience rhyme_scheme length_words
            = build_prompt keyword content_type language tone audience ''Free Verse''
                length_words)
   \<and> (\<not> (content_type = ''Poem'' \<and> rhyme_scheme \<noteq> ''Free Verse'')
        \<and> \<not> str_contains ''rhyme'' keyword
      \<longrightarrow> (\<forall>clause\<in>snd ` set rhyme_map.
             \<not> str_contains clause
                 (build_prompt keyword content_type language tone audience rhyme_scheme
                    length_words)))"
proof (intro conjI impI ballI)
  assume a: "content_type = ''Poem'' \<and> rhyme_scheme \<noteq> ''Free Verse''"
  then have "rhyme_scheme \<noteq> ''Free Verse''" ..
  then obtain body where
    "build_prompt keyword ''Poem'' language tone audience rhyme_scheme length_words
       = body @ dict_get rhyme_map rhyme_scheme [] @ ''.''"
    using poem_prompt_ends_with_clause by blast
  moreover from a have "content_type = ''Poem''" ..
  ultimately have
    "build_prompt keyword content_type language tone audience rhyme_scheme length_words
       = body @ dict_get rhyme_map rhyme_scheme [] @ ''.''"
    by (simp only:)
  then show "suffix (dict_get rhyme_map rhyme_scheme [] @ ''.'')
         (build_prompt keyword content_type language tone audience rhyme_scheme length_words)"
    by (rule suffixI)
next
  have ne: "''ABAB'' \<noteq> ''Free Verse''"
    by simp
  have cl: "dict_get rhyme_map ''ABAB'' [] = ''Use ABAB rhyme scheme''"
    by (simp add: rhyme_map_def dict_get_def)
  from poem_prompt_ends_with_clause [OF ne, of keyword language tone audience length_words]
  obtain body where
    "build_prompt keyword ''Poem'' language tone audience ''ABAB'' length_words
       = body @ dict_get rhyme_map ''ABAB'' [] @ ''.''" ..
  then have "build_prompt keyword ''Poem'' language tone audience ''ABAB'' length_words
       = body @ ''Use ABAB rhyme scheme'' @ ''.''"
    by (simp only: cl)
  then show "str_contains ''Use ABAB rhyme scheme''
        (build_prompt keyword ''Poem'' language tone audience ''ABAB'' length_words)"
    by (simp only: str_contains_sublist sublist_appendI)
next
  assume "\<not> (content_type = ''Poem'' \<and> rhyme_scheme \<noteq> ''Free Verse'')"
  then show "build_prompt keyword content_type language tone audience rhyme_scheme length_words
            = build_prompt keyword content_type language tone audience ''Free Verse''
                length_words"
    by (rule unused_rhyme_scheme)
next
  fix clause
  assume a: "\<not> (content_type = ''Poem'' \<and> rhyme_scheme \<noteq> ''Free Verse'')
        \<and> \<not> str_contains ''rhyme'' keyword"
    and c: "clause \<in> snd ` set rhyme_map"
  from rhyme_map_has_rhyme have "\<forall>kv\<in>set rhyme_map. sublist ''rhyme'' (snd kv)"
    by (simp only: list_all_iff)
  with c have r: "sublist ''rhyme'' clause"
    by blast
  from a have 1: "\<not> (content_type = ''Poem'' \<and> rhyme_scheme \<noteq> ''Free Verse'')" ..
  from a have "\<not> str_contains ''rhyme'' keyword" ..
  then have 2: "\<not> sublist ''rhyme'' keyword"
    by (simp add: str_contains_sublist)
  have "\<not> sublist ''rhyme''
      (build_prompt keyword content_type language tone audience rhyme_scheme length_words)"
    using 1 2 by (rule prompt_without_rhyme_clause)
  with r have "\<not> sublist clause
      (build_prompt keyword content_type language tone audience rhyme_scheme length_words)"
    using sublist_trans' by blast
  then show "\<not> str_contains clause
      (build_prompt keyword content_type language tone audience rhyme_scheme length_words)"
    by (simp add: str_contains_sublist)
qed

theorem build_prompt_rhyme_clause_witness:
  "(''Poem'' = ''Poem'' \<and> ''ABAB'' \<noteq> ''Free Verse'')
   \<and> suffix ''Use ABAB rhyme scheme.''
        (build_prompt ''sea'' ''Poem'' ''French'' ''Funny'' ''Kids'' ''ABAB'' 20)
   \<and> \<not> (''Quote'' = ''Poem'' \<and> ''ABAB'' \<noteq> ''Free Verse'')
   \<and> \<not> str_contains ''rhyme'' ''sea''
   \<and> ''Use ABAB rhyme scheme'' \<in> snd ` set rhyme_map
   \<and> \<not> str_contains ''Use ABAB rhyme scheme''
          (build_prompt ''sea'' ''Quote'' ''French'' ''Funny'' ''Kids'' ''ABAB'' 20)"
proof -
  have a1: "''Poem'' = ''Poem''" and a2: "''ABAB'' \<noteq> ''Free Verse''"
    by simp_all
  then have a: "''Poem'' = ''Poem'' \<and> ''ABAB'' \<noteq> ''Free Verse''"
    by (rule conjI)
  have b: "\<not> (''Quote'' = ''Poem'' \<and> ''ABAB'' \<noteq> ''Free Verse'')"
    by simp
  have c: "\<not> str_contains ''rhyme'' ''sea''"
    by simp
  have d: "''Use ABAB rhyme scheme'' \<in> snd ` set rhyme_map"
    by (simp add: rhyme_map_def)
  have cl: "dict_get rhyme_map ''ABAB'' [] @ ''.'' = ''Use ABAB rhyme scheme.''"
    by (simp add: rhyme_map_def dict_get_def)
  note t1 = build_prompt_rhyme_clause
              [of "''Poem''" "''ABAB''" "''sea''" "''French''" "''Funny''" "''Kids''" 20]
  note t2 = build_prompt_rhyme_clause
              [of "''Quote''" "''ABAB''" "''sea''" "''French''" "''Funny''" "''Kids''" 20]
  from mp [OF conjunct1 [OF t1] a]
  have s: "suffix ''Use ABAB rhyme scheme.''
        (build_prompt ''sea'' ''Poem'' ''French'' ''Funny'' ''Kids'' ''ABAB'' 20)"
    by (simp only: cl)
  from b c have "\<not> (''Quote'' = ''Poem'' \<and> ''ABAB'' \<noteq> ''Free Verse'')
                  \<and> \<not> str_contains ''rhyme'' ''sea''"
    by (rule conjI)
  from mp [OF conjunct2 [OF conjunct2 [OF conjunct2 [OF t2]]] this]
  have "\<forall>clause\<in>snd ` set rhyme_map.
          \<not> str_contains clause
              (build_prompt ''sea'' ''Quote'' ''French'' ''Funny'' ''Kids'' ''ABAB'' 20)" .
  from bspec [OF this d]
  have n: "\<not> str_contains ''Use ABAB rhyme scheme''
          (build_prompt ''sea'' ''Quote'' ''French'' ''Funny'' ''Kids'' ''ABAB'' 20)" .
  from a1 a2 s b c d n show ?thesis
    by (intro conjI)
qed

end
